theory Spec2Isabelle
  imports Complex_Main "HOL-Library.Word"
begin

section \<open>Error model\<close>

text \<open>
  \<^verbatim>\<open>class ApiError extends Error\<close> carries a message and an HTTP status code.  The other
  constructors are the exceptions that are not instances of \<^verbatim>\<open>ApiError\<close>: a plain
  \<^verbatim>\<open>Error\<close> (thrown by the password helpers and by \<^verbatim>\<open>generateToken\<close>) and the two error
  classes of the token library that \<^verbatim>\<open>verifyToken\<close> tells apart by their \<^verbatim>\<open>name\<close>.
\<close>

datatype error =
    ApiError string nat
  | Error string
  | JsonWebTokenError string
  | TokenExpiredError

fun statusCode :: "error \<Rightarrow> nat" where
  "statusCode (ApiError m c) = c"
| "statusCode _ = 500"

fun isApiError :: "error \<Rightarrow> bool" where
  "isApiError (ApiError m c) = True"
| "isApiError _ = False"

section \<open>Requests and the authenticated context\<close>

text \<open>JSON values (numbers are JavaScript numbers, here rationals) and objects.\<close>

datatype jval = JNull | JBool bool | JNum rat | JStr string

type_synonym json = "(string \<times> jval) list"

text \<open>
  The part of an Express request that the middleware reads and writes: the
  \<^verbatim>\<open>Authorization\<close> header, the route parameter \<^verbatim>\<open>id\<close>, the parsed JSON body and the
  context \<^verbatim>\<open>user = {id, email}\<close> that \<^verbatim>\<open>authenticate\<close> attaches
  (\<^verbatim>\<open>AuthenticatedRequest\<close>).
\<close>

record auth_user =
  user_id :: string
  user_email :: string

record request =
  authorization :: "string option"
  params_id :: "string option"
  body :: "string \<rightharpoonup> jval"
  req_user :: "auth_user option"

subsection \<open>Self-access rule\<close>

text \<open>
  \<^verbatim>\<open>requireSelfAccess\<close>: the three checks in the order of the source.  \<^verbatim>\<open>!resourceId\<close> is
  true for a missing parameter and for the empty string.  A \<^verbatim>\<open>throw\<close> is \<open>Inl\<close>, the call
  of \<^verbatim>\<open>next()\<close> is \<open>Inr\<close> of the request handed on.
\<close>

definition requireSelfAccess :: "request \<Rightarrow> error + request" where
  "requireSelfAccess req =
     (case req_user req of
        None \<Rightarrow> Inl (ApiError ''You must be logged in to access this resource.'' 401)
      | Some u \<Rightarrow>
          (case params_id req of
             None \<Rightarrow> Inl (ApiError ''Resource ID is required.'' 400)
           | Some resourceId \<Rightarrow>
               if resourceId = [] then Inl (ApiError ''Resource ID is required.'' 400)
               else if user_id u \<noteq> resourceId
                 then Inl (ApiError ''You can only access your own resources.'' 403)
               else Inr req))"

section \<open>Strings\<close>

text \<open>
  A string is a list of characters.  \<^verbatim>\<open>String.prototype.toLowerCase\<close>, \<^verbatim>\<open>trim\<close> and the
  white-space class \<^verbatim>\<open>\s\<close> of regular expressions follow the Unicode tables of the
  runtime; they are parameters of the model (see the record of library primitives below).
  The two functions here work on the ASCII range only.  They render the hexadecimal digits
  of an identifier in lower case and serve as stand-ins in the sample data.
\<close>

definition asciiLowerChar :: "char \<Rightarrow> char" where
  "asciiLowerChar c =
     (let n = (of_char c :: nat) in if 65 \<le> n \<and> n \<le> 90 then char_of (n + 32) else c)"

definition asciiLower :: "string \<Rightarrow> string" where
  "asciiLower s = map asciiLowerChar s"

definition asciiSpace :: "char \<Rightarrow> bool" where
  "asciiSpace c = (let n = (of_char c :: nat) in (9 \<le> n \<and> n \<le> 13) \<or> n = 32)"

definition asciiTrim :: "string \<Rightarrow> string" where
  "asciiTrim s = rev (dropWhile asciiSpace (rev (dropWhile asciiSpace s)))"

definition isHexDigit :: "char \<Rightarrow> bool" where
  "isHexDigit c =
     (let n = (of_char c :: nat) in (48 \<le> n \<and> n \<le> 57) \<or> (65 \<le> n \<and> n \<le> 70) \<or> (97 \<le> n \<and> n \<le> 102))"

text \<open>\<^verbatim>\<open>a || b\<close> on a string that may be undefined: the empty string is falsy.\<close>

definition or_else :: "string option \<Rightarrow> string \<Rightarrow> string" where
  "or_else a b = (case a of None \<Rightarrow> b | Some s \<Rightarrow> if s = [] then b else s)"

section \<open>Configuration and external libraries\<close>

text \<open>
  The validated environment (\<^verbatim>\<open>env\<close>) and the two raw variables that \<^verbatim>\<open>jwt.ts\<close> reads
  from \<^verbatim>\<open>process.env\<close> first.
\<close>

record env =
  process_env_JWT_SECRET :: "string option"
  process_env_JWT_EXPIRES_IN :: "string option"
  JWT_SECRET :: string
  JWT_EXPIRES_IN :: string
  BCRYPT_ROUND :: nat

text \<open>The claims of a token: the interface \<^verbatim>\<open>JwtPayload\<close>; a claim that is not in the
  object is \<open>None\<close>.  Times are seconds since the epoch.\<close>

record jwt_payload =
  jwt_id :: "string option"
  jwt_email :: "string option"
  iat :: "int option"
  exp :: "int option"

text \<open>
  The primitives of the runtime and of the libraries the repository calls, taken as
  parameters:
  \<^item> \<open>toLowerCase\<close>, \<open>trim\<close>: the methods of \<^verbatim>\<open>String.prototype\<close>; \<open>isSpace\<close>: the class
    \<^verbatim>\<open>\s\<close> of regular expressions;
  \<^item> \<open>bcrypt_hash\<close>, \<open>bcrypt_compare\<close>: the bcrypt package; \<open>None\<close> is a rejected promise;
  \<^item> \<open>jws_seal\<close>: serialise and sign claims under a secret; \<open>jws_unseal\<close>: parse a token
    and check its signature under a secret, \<open>Inl\<close> the message of the library's
    \<^verbatim>\<open>JsonWebTokenError\<close> (malformed token, invalid signature);
  \<^item> \<open>timespan_ms\<close>: the milliseconds of a time span such as \<^verbatim>\<open>7d\<close>, \<open>None\<close> when the
    string is no time span;
  \<^item> \<open>random_source\<close>: the bytes \<^verbatim>\<open>crypto.randomBytes\<close> draws, by position;
  \<^item> \<open>query_rejected\<close>: whether the store rejects the query of \<^verbatim>\<open>getUserByEmail\<close> (a lost
    connection, say);
  \<^item> \<open>cast_string\<close>, \<open>cast_number\<close>, \<open>cast_date\<close>: the store's casts of a value that is
    neither \<^verbatim>\<open>null\<close> nor of the type of the path, \<open>None\<close> when the cast fails.
\<close>

record lib =
  toLowerCase :: "string \<Rightarrow> string"
  trim :: "string \<Rightarrow> string"
  isSpace :: "char \<Rightarrow> bool"
  bcrypt_hash :: "string \<Rightarrow> nat \<Rightarrow> string option"
  bcrypt_compare :: "string \<Rightarrow> string \<Rightarrow> bool option"
  jws_seal :: "jwt_payload \<Rightarrow> string \<Rightarrow> string"
  jws_unseal :: "string \<Rightarrow> string \<Rightarrow> string + jwt_payload"
  timespan_ms :: "string \<Rightarrow> int option"
  random_source :: "nat \<Rightarrow> 8 word"
  query_rejected :: bool
  cast_string :: "jval \<Rightarrow> string option"
  cast_number :: "jval \<Rightarrow> rat option"
  cast_date :: "jval \<Rightarrow> int option"

subsection \<open>Password helpers\<close>

definition hashPassword :: "lib \<Rightarrow> env \<Rightarrow> string \<Rightarrow> error + string" where
  "hashPassword L E pw =
     (case bcrypt_hash L pw (BCRYPT_ROUND E) of
        None \<Rightarrow> Inl (Error ''Password hashing failed'')
      | Some hashedPassword \<Rightarrow> Inr hashedPassword)"

definition comparePassword :: "lib \<Rightarrow> string \<Rightarrow> string \<Rightarrow> error + bool" where
  "comparePassword L pw hashedPassword =
     (case bcrypt_compare L pw hashedPassword of
        None \<Rightarrow> Inl (Error ''Password comparison failed'')
      | Some isMatch \<Rightarrow> Inr isMatch)"

subsection \<open>Token library\<close>

text \<open>
  \<^verbatim>\<open>jwt.sign(payload, secret, {expiresIn})\<close> at clock \<open>now\<close> (milliseconds): the library
  adds \<^verbatim>\<open>iat\<close>, the clock in seconds, and \<^verbatim>\<open>exp\<close>, \<^verbatim>\<open>iat\<close> plus the time span, and
  throws when \<^verbatim>\<open>expiresIn\<close> is no time span.
  \<^verbatim>\<open>jwt.verify(token, secret)\<close>: a token that does not parse or whose signature does not
  check raises \<^verbatim>\<open>JsonWebTokenError\<close>; a token whose \<^verbatim>\<open>exp\<close> the clock has reached raises
  \<^verbatim>\<open>TokenExpiredError\<close>.
\<close>

definition jwt_sign :: "lib \<Rightarrow> int \<Rightarrow> string \<times> string \<Rightarrow> string \<Rightarrow> string \<Rightarrow> error + string" where
  "jwt_sign L now payload secret expiresIn =
     (case timespan_ms L expiresIn of
        None \<Rightarrow> Inl (Error ''expiresIn should be a number of seconds or string representing a timespan'')
      | Some ms \<Rightarrow>
          (let timestamp = now div 1000 in
           Inr (jws_seal L
                 \<lparr>jwt_id = Some (fst payload), jwt_email = Some (snd payload),
                  iat = Some timestamp, exp = Some (timestamp + ms div 1000)\<rparr> secret)))"

definition jwt_verify :: "lib \<Rightarrow> int \<Rightarrow> string \<Rightarrow> string \<Rightarrow> error + jwt_payload" where
  "jwt_verify L now token secret =
     (case jws_unseal L token secret of
        Inl m \<Rightarrow> Inl (JsonWebTokenError m)
      | Inr payload \<Rightarrow>
          (case exp payload of
             None \<Rightarrow> Inr payload
           | Some e \<Rightarrow> if now div 1000 \<ge> e then Inl TokenExpiredError else Inr payload))"

subsection \<open>generateToken and verifyToken\<close>

text \<open>Every exception inside \<^verbatim>\<open>generateToken\<close> is caught and replaced by the 500 error.\<close>

definition generateToken :: "lib \<Rightarrow> env \<Rightarrow> int \<Rightarrow> string \<times> string \<Rightarrow> error + string" where
  "generateToken L E now payload =
     (let jwtSecret = or_else (process_env_JWT_SECRET E) (JWT_SECRET E);
          jwtExpires = or_else (process_env_JWT_EXPIRES_IN E)
                         (if JWT_EXPIRES_IN E = [] then ''7d'' else JWT_EXPIRES_IN E);
          attempt = (if jwtSecret = [] then Inl (Error ''JWT_SECRET is required'')
                     else jwt_sign L now payload jwtSecret jwtExpires)
      in case attempt of
           Inr token \<Rightarrow> Inr token
         | Inl e \<Rightarrow> Inl (ApiError ''Failed to generate authentication token'' 500))"

text \<open>
  \<^verbatim>\<open>verifyToken\<close>: the \<^verbatim>\<open>catch\<close> looks at the name of the exception; the \<^verbatim>\<open>ApiError\<close>
  thrown inside the \<^verbatim>\<open>try\<close> for a payload without \<^verbatim>\<open>id\<close> or \<^verbatim>\<open>email\<close> has neither of the
  two names and ends in the last branch.
\<close>

definition verifyToken :: "lib \<Rightarrow> env \<Rightarrow> int \<Rightarrow> string \<Rightarrow> error + jwt_payload" where
  "verifyToken L E now token =
     (let jwtSecret = or_else (process_env_JWT_SECRET E) (JWT_SECRET E);
          attempt =
            (if jwtSecret = [] then Inl (Error ''JWT_SECRET not available for verification'')
             else (case jwt_verify L now token jwtSecret of
                     Inl e \<Rightarrow> Inl e
                   | Inr decoded \<Rightarrow>
                       if jwt_id decoded \<noteq> None \<and> jwt_email decoded \<noteq> None then Inr decoded
                       else Inl (ApiError ''Invalid token structure'' 401)))
      in case attempt of
           Inr decoded \<Rightarrow> Inr decoded
         | Inl (JsonWebTokenError m) \<Rightarrow> Inl (ApiError ''Invalid authentication token'' 401)
         | Inl TokenExpiredError \<Rightarrow> Inl (ApiError ''Authentication token has expired'' 401)
         | Inl _ \<Rightarrow> Inl (ApiError ''Authentication failed'' 401))"

section \<open>User store\<close>

text \<open>
  A document of the \<^verbatim>\<open>User\<close> model with the fields the schema declares (\<open>doc_id\<close> is
  \<^verbatim>\<open>_id\<close>, rendered as \<^verbatim>\<open>toString()\<close> renders it: 24 hexadecimal digits, lower case); \<^verbatim>\<open>null\<close> and \<^verbatim>\<open>undefined\<close> are \<open>None\<close>, dates are
  milliseconds.  The collection is the list of its documents in their natural order.  The
  \<^verbatim>\<open>createdAt\<close> and \<^verbatim>\<open>updatedAt\<close> stamps, which the store keeps by itself, are left out.
\<close>

record user_doc =
  doc_id :: string
  name :: string
  email :: string
  password :: string
  age :: rat
  passwordResetToken :: "string option"
  passwordResetExpires :: "int option"

type_synonym collection = "user_doc list"

text \<open>The schema's setters of the path \<^verbatim>\<open>email\<close> (\<^verbatim>\<open>trim: true, lowercase: true\<close>); they
  run when a document is built and when a query filter on that path is cast.\<close>

definition emailSetter :: "lib \<Rightarrow> string \<Rightarrow> string" where
  "emailSetter L s = toLowerCase L (trim L s)"

definition findOne_email :: "lib \<Rightarrow> collection \<Rightarrow> string \<Rightarrow> user_doc option" where
  "findOne_email L db e = find (\<lambda>d. email d = emailSetter L e) db"

text \<open>The document with a given \<^verbatim>\<open>_id\<close>.\<close>

definition byId :: "collection \<Rightarrow> string \<Rightarrow> user_doc option" where
  "byId db oid = find (\<lambda>d. doc_id d = oid) db"

text \<open>
  \<^verbatim>\<open>User.findById\<close> and \<^verbatim>\<open>findByIdAndUpdate\<close> cast the string they are given to an
  \<^verbatim>\<open>ObjectId\<close>: a string of 24 hexadecimal digits, in either case, is one; for any other
  string the cast fails and the query is rejected with a \<^verbatim>\<open>CastError\<close>, which is no
  \<^verbatim>\<open>ApiError\<close>.  (Old versions of the driver also take a string of 12 characters as the
  12 bytes of an id; that is left out, and no example below has such a string.)
\<close>

definition castObjectId :: "string \<Rightarrow> string option" where
  "castObjectId s =
     (if length s = 24 \<and> list_all isHexDigit s then Some (asciiLower s) else None)"

definition findById :: "collection \<Rightarrow> string \<Rightarrow> error + user_doc option" where
  "findById db i =
     (case castObjectId i of
        None \<Rightarrow> Inl (Error ''Cast to ObjectId failed'')
      | Some oid \<Rightarrow> Inr (byId db oid))"

text \<open>\<^verbatim>\<open>findOne({passwordResetToken: token, passwordResetExpires: {$gt: now}})\<close>.\<close>

definition findOne_reset :: "collection \<Rightarrow> string \<Rightarrow> int \<Rightarrow> user_doc option" where
  "findOne_reset db tok now =
     find (\<lambda>d. passwordResetToken d = Some tok \<and>
               (case passwordResetExpires d of None \<Rightarrow> False | Some t \<Rightarrow> t > now)) db"

text \<open>Saving a loaded document writes its modified paths to the document with its
  \<^verbatim>\<open>_id\<close>: the first one in the collection.\<close>

fun updateOne :: "string \<Rightarrow> (user_doc \<Rightarrow> user_doc) \<Rightarrow> collection \<Rightarrow> collection" where
  "updateOne i f [] = []"
| "updateOne i f (d # ds) = (if doc_id d = i then f d # ds else d # updateOne i f ds)"

text \<open>
  Saving a new document: the schema's \<^verbatim>\<open>required\<close> validators (an empty string fails
  them), then the \<^verbatim>\<open>pre('save')\<close> hook, which hashes the password of a new document, then
  the insert, which the unique index on \<^verbatim>\<open>email\<close> refuses for a duplicate.
\<close>

definition save_new :: "lib \<Rightarrow> env \<Rightarrow> collection \<Rightarrow> user_doc \<Rightarrow> error + (user_doc \<times> collection)" where
  "save_new L E db d =
     (if name d = [] \<or> email d = [] \<or> password d = [] then Inl (Error ''User validation failed'')
      else (case hashPassword L E (password d) of
              Inl e \<Rightarrow> Inl e
            | Inr h \<Rightarrow>
                if list_ex (\<lambda>x. email x = email d) db
                  then Inl (Error ''E11000 duplicate key error'')
                else (let saved = d\<lparr>password := h\<rparr> in Inr (saved, db @ [saved]))))"

text \<open>
  Saving a loaded document whose \<^verbatim>\<open>password\<close> was assigned: when the path counts as
  modified, the new value passes the \<^verbatim>\<open>required\<close> validator and the hook hashes it;
  \<open>rest\<close> are the other assignments, written together with the password.
\<close>

definition save_password ::
  "lib \<Rightarrow> env \<Rightarrow> collection \<Rightarrow> string \<Rightarrow> bool \<Rightarrow> string \<Rightarrow> (user_doc \<Rightarrow> user_doc) \<Rightarrow> error + collection" where
  "save_password L E db i modified pw rest =
     (if \<not> modified then Inr (updateOne i rest db)
      else if pw = [] then Inl (Error ''User validation failed'')
      else (case hashPassword L E pw of
              Inl e \<Rightarrow> Inl e
            | Inr h \<Rightarrow> Inr (updateOne i (\<lambda>d. (rest d)\<lparr>password := h\<rparr>) db)))"

subsection \<open>JSON view of a document\<close>

text \<open>The object of a document that was loaded or built with its password (the reset
  fields are not selected), and \<^verbatim>\<open>toJSON\<close> with the schema's transform, which deletes
  \<^verbatim>\<open>_id\<close>, \<^verbatim>\<open>__v\<close> and \<^verbatim>\<open>password\<close>.\<close>

definition toObject :: "user_doc \<Rightarrow> json" where
  "toObject d =
     [(''_id'', JStr (doc_id d)), (''name'', JStr (name d)), (''email'', JStr (email d)),
      (''password'', JStr (password d)), (''age'', JNum (age d)), (''__v'', JNum 0),
      (''id'', JStr (doc_id d))]"

definition toJSON :: "user_doc \<Rightarrow> json" where
  "toJSON d = filter (\<lambda>kv. fst kv \<noteq> ''_id'' \<and> fst kv \<noteq> ''__v'' \<and> fst kv \<noteq> ''password'') (toObject d)"

section \<open>Authentication service\<close>

text \<open>The result objects of the service; a key that is absent is \<open>None\<close>.\<close>

record response =
  success :: bool
  message :: string
  data_user :: "json option"
  data_token :: "string option"
  resetToken :: "string option"

record RegisterUserData =
  reg_name :: string
  reg_email :: string
  reg_password :: string
  reg_age :: rat

record LoginCredentials =
  cred_email :: string
  cred_password :: string

record ChangePasswordData =
  currentPassword :: string
  newPassword :: string

record PasswordResetData =
  reset_token :: string
  reset_newPassword :: string

text \<open>\<^verbatim>\<open>catch (error) { if (error instanceof ApiError) throw error; throw new ApiError(msg, 500) }\<close>\<close>

definition rethrow :: "string \<Rightarrow> error + 'a \<Rightarrow> error + 'a" where
  "rethrow msg r =
     (case r of Inr v \<Rightarrow> Inr v
      | Inl e \<Rightarrow> if isApiError e then Inl e else Inl (ApiError msg 500))"

text \<open>\<^verbatim>\<open>new User(userData)\<close>: the setters of \<^verbatim>\<open>name\<close> and \<^verbatim>\<open>email\<close> run; \<open>oid\<close> is the
  identifier the driver generates.\<close>

definition new_User :: "lib \<Rightarrow> string \<Rightarrow> RegisterUserData \<Rightarrow> user_doc" where
  "new_User L oid userData =
     \<lparr>doc_id = oid, name = trim L (reg_name userData), email = emailSetter L (reg_email userData),
      password = reg_password userData, age = reg_age userData,
      passwordResetToken = None, passwordResetExpires = None\<rparr>"

definition registerUser ::
  "lib \<Rightarrow> env \<Rightarrow> int \<Rightarrow> string \<Rightarrow> collection \<Rightarrow> RegisterUserData \<Rightarrow> (error + response) \<times> collection" where
  "registerUser L E now oid db userData =
     (case findOne_email L db (reg_email userData) of
        Some existingUser \<Rightarrow> (Inl (ApiError ''Email already registered'' 409), db)
      | None \<Rightarrow>
          (case save_new L E db (new_User L oid userData) of
             Inl e \<Rightarrow> (rethrow ''Registration failed'' (Inl e), db)
           | Inr (user, db') \<Rightarrow>
               (case generateToken L E now (doc_id user, email user) of
                  Inl e \<Rightarrow> (rethrow ''Registration failed'' (Inl e), db')
                | Inr token \<Rightarrow>
                    (Inr \<lparr>success = True, message = ''User registered successfully'',
                          data_user = Some (toJSON user), data_token = Some token,
                          resetToken = None\<rparr>, db'))))"

definition loginUser :: "lib \<Rightarrow> env \<Rightarrow> int \<Rightarrow> collection \<Rightarrow> LoginCredentials \<Rightarrow> error + response" where
  "loginUser L E now db credentials =
     rethrow ''Login failed''
       (case findOne_email L db (cred_email credentials) of
          None \<Rightarrow> Inl (ApiError ''Invalid login credentials'' 401)
        | Some user \<Rightarrow>
            (case comparePassword L (cred_password credentials) (password user) of
               Inl e \<Rightarrow> Inl e
             | Inr isPasswordValid \<Rightarrow>
                 if \<not> isPasswordValid then Inl (ApiError ''Invalid login credentials'' 401)
                 else (case generateToken L E now (doc_id user, email user) of
                         Inl e \<Rightarrow> Inl e
                       | Inr token \<Rightarrow>
                           Inr \<lparr>success = True, message = ''Login successful'',
                                data_user = Some (toJSON user), data_token = Some token,
                                resetToken = None\<rparr>)))"

text \<open>\<^verbatim>\<open>changePassword\<close>: the document is loaded with its password, so the assignment
  marks the path modified when the new value differs from the stored one.\<close>

definition changePassword ::
  "lib \<Rightarrow> env \<Rightarrow> collection \<Rightarrow> string \<Rightarrow> ChangePasswordData \<Rightarrow> (error + response) \<times> collection" where
  "changePassword L E db userId passwordData =
     (case findById db userId of
        Inl e \<Rightarrow> (rethrow ''Password change failed'' (Inl e), db)
      | Inr None \<Rightarrow> (Inl (ApiError ''User not found'' 404), db)
      | Inr (Some user) \<Rightarrow>
          (case comparePassword L (currentPassword passwordData) (password user) of
             Inl e \<Rightarrow> (rethrow ''Password change failed'' (Inl e), db)
           | Inr isCurrentPasswordValid \<Rightarrow>
               if \<not> isCurrentPasswordValid
                 then (Inl (ApiError ''Current password is incorrect'' 400), db)
               else (case save_password L E db (doc_id user)
                            (newPassword passwordData \<noteq> password user)
                            (newPassword passwordData) (\<lambda>d. d) of
                       Inl e \<Rightarrow> (rethrow ''Password change failed'' (Inl e), db)
                     | Inr db' \<Rightarrow>
                         (Inr \<lparr>success = True, message = ''Password changed successfully'',
                               data_user = None, data_token = None, resetToken = None\<rparr>, db'))))"

subsection \<open>Password reset\<close>

text \<open>\<^verbatim>\<open>crypto.randomBytes(n).toString('hex')\<close>: two lower-case hexadecimal digits a byte.\<close>

definition randomBytes :: "lib \<Rightarrow> nat \<Rightarrow> 8 word list" where
  "randomBytes L n = map (random_source L) [0..<n]"

definition hexDigit :: "nat \<Rightarrow> char" where
  "hexDigit n = (if n < 10 then char_of (48 + n) else char_of (87 + n))"

definition toHex :: "8 word list \<Rightarrow> string" where
  "toHex bs = concat (map (\<lambda>b. [hexDigit (unat b div 16), hexDigit (unat b mod 16)]) bs)"

text \<open>\<^verbatim>\<open>requestPasswordReset\<close>: the document is loaded without its password; the two reset
  fields are assigned and saved.  Nothing in the \<^verbatim>\<open>try\<close> raises here.\<close>

definition requestPasswordReset ::
  "lib \<Rightarrow> int \<Rightarrow> collection \<Rightarrow> string \<Rightarrow> (error + response) \<times> collection" where
  "requestPasswordReset L now db requestEmail =
     (case findOne_email L db requestEmail of
        None \<Rightarrow>
          (Inr \<lparr>success = True,
                message = ''If the email exists, a password reset link has been sent'',
                data_user = None, data_token = None, resetToken = None\<rparr>, db)
      | Some user \<Rightarrow>
          (let resetTok = toHex (randomBytes L 32);
               resetTokenExpiry = now + 15 * 60 * 1000
           in (Inr \<lparr>success = True, message = ''Password reset token generated'',
                     data_user = None, data_token = None, resetToken = Some resetTok\<rparr>,
               updateOne (doc_id user)
                 (\<lambda>d. d\<lparr>passwordResetToken := Some resetTok,
                         passwordResetExpires := Some resetTokenExpiry\<rparr>) db)))"

text \<open>\<^verbatim>\<open>resetPassword\<close>: the document is loaded without its password, so the assignment
  always marks the path modified.\<close>

definition resetPassword ::
  "lib \<Rightarrow> env \<Rightarrow> int \<Rightarrow> collection \<Rightarrow> PasswordResetData \<Rightarrow> (error + response) \<times> collection" where
  "resetPassword L E now db resetData =
     (case findOne_reset db (reset_token resetData) now of
        None \<Rightarrow> (Inl (ApiError ''Invalid or expired reset token'' 400), db)
      | Some user \<Rightarrow>
          (case save_password L E db (doc_id user) True (reset_newPassword resetData)
                  (\<lambda>d. d\<lparr>passwordResetToken := None, passwordResetExpires := None\<rparr>) of
             Inl e \<Rightarrow> (rethrow ''Password reset failed'' (Inl e), db)
           | Inr db' \<Rightarrow>
               (Inr \<lparr>success = True, message = ''Password reset successful'',
                     data_user = None, data_token = None, resetToken = None\<rparr>, db')))"

section \<open>Authentication middleware\<close>

definition extractToken :: "request \<Rightarrow> string option" where
  "extractToken req =
     (case authorization req of
        None \<Rightarrow> None
      | Some authHeader \<Rightarrow>
          if authHeader \<noteq> [] \<and> take 7 authHeader = ''Bearer '' then Some (drop 7 authHeader)
          else None)"

text \<open>\<^verbatim>\<open>getUserByEmail\<close> of the user service, without the password: a query that the
  store rejects ends in the \<^verbatim>\<open>catch\<close>, which throws the 500 error.\<close>

definition getUserByEmail :: "lib \<Rightarrow> collection \<Rightarrow> string \<Rightarrow> error + user_doc option" where
  "getUserByEmail L db e =
     (let attempt = (if query_rejected L then Inl (Error ''query rejected'')
                     else Inr (findOne_email L db (toLowerCase L e)))
      in case attempt of
           Inr found \<Rightarrow> Inr found
         | Inl err \<Rightarrow> Inl (ApiError ''Failed to fetch user'' 500))"

text \<open>
  \<^verbatim>\<open>authenticate\<close>: \<open>attempt\<close> is the \<^verbatim>\<open>try\<close> block, the final case distinction the
  \<^verbatim>\<open>catch\<close>.  \<open>Inl e\<close> is \<^verbatim>\<open>next(e)\<close>, \<open>Inr req'\<close> is \<^verbatim>\<open>next()\<close> with the request as
  the middleware leaves it.  \<^verbatim>\<open>optionalAuth\<close> has the same steps and calls \<^verbatim>\<open>next()\<close> at
  every failure.
\<close>

definition authenticate :: "lib \<Rightarrow> env \<Rightarrow> int \<Rightarrow> collection \<Rightarrow> request \<Rightarrow> error + request" where
  "authenticate L E now db req =
     (let attempt =
        (case extractToken req of
           None \<Rightarrow> Inl (ApiError ''Access token is required. Please log in.'' 401)
         | Some token \<Rightarrow>
             if token = [] then Inl (ApiError ''Access token is required. Please log in.'' 401)
             else (case verifyToken L E now token of
                     Inl e \<Rightarrow> Inl e
                   | Inr decoded \<Rightarrow>
                       (case (jwt_id decoded, jwt_email decoded) of
                          (Some i, Some e) \<Rightarrow>
                            if i = [] \<or> e = []
                              then Inl (ApiError ''Invalid token. Please log in again.'' 401)
                            else (case getUserByEmail L db e of
                                    Inl err \<Rightarrow> Inl err
                                  | Inr None \<Rightarrow>
                                      Inl (ApiError ''The user belonging to this token no longer exists.'' 401)
                                  | Inr (Some currentUser) \<Rightarrow>
                                      Inr (req\<lparr>req_user := Some \<lparr>user_id = doc_id currentUser,
                                                             user_email = email currentUser\<rparr>\<rparr>))
                        | _ \<Rightarrow> Inl (ApiError ''Invalid token. Please log in again.'' 401))))
      in case attempt of
           Inr req' \<Rightarrow> Inr req'
         | Inl e \<Rightarrow>
             if isApiError e then Inl e
             else Inl (ApiError ''Authentication failed. Please log in again.'' 401))"

definition optionalAuth :: "lib \<Rightarrow> env \<Rightarrow> int \<Rightarrow> collection \<Rightarrow> request \<Rightarrow> error + request" where
  "optionalAuth L E now db req =
     (let attempt =
        (case extractToken req of
           None \<Rightarrow> Inr req
         | Some token \<Rightarrow>
             if token = [] then Inr req
             else (case verifyToken L E now token of
                     Inl e \<Rightarrow> Inl e
                   | Inr decoded \<Rightarrow>
                       (case (jwt_id decoded, jwt_email decoded) of
                          (Some i, Some e) \<Rightarrow>
                            if i = [] \<or> e = [] then Inr req
                            else (case getUserByEmail L db e of
                                    Inl err \<Rightarrow> Inl err
                                  | Inr None \<Rightarrow> Inr req
                                  | Inr (Some currentUser) \<Rightarrow>
                                      Inr (req\<lparr>req_user := Some \<lparr>user_id = doc_id currentUser,
                                                             user_email = email currentUser\<rparr>\<rparr>))
                        | _ \<Rightarrow> Inr req)))
      in case attempt of
           Inr req' \<Rightarrow> Inr req'
         | Inl e \<Rightarrow> Inr req)"

section \<open>Rate limiting\<close>

text \<open>The options the four limiters of \<^verbatim>\<open>rateLimiter.ts\<close> are built with; \<open>max_requests\<close>
  is \<^verbatim>\<open>max\<close>, \<open>handler_message\<close> the message of the \<^verbatim>\<open>ApiError\<close> their handler throws.\<close>

record limiter_options =
  windowMs :: int
  max_requests :: nat
  skipSuccessfulRequests :: bool
  handler_message :: string

definition generalLimiter :: limiter_options where
  "generalLimiter =
     \<lparr>windowMs = 15 * 60 * 1000, max_requests = 100, skipSuccessfulRequests = False,
      handler_message = ''Too many requests from this IP, please try again later.''\<rparr>"

definition authLimiter :: limiter_options where
  "authLimiter =
     \<lparr>windowMs = 15 * 60 * 1000, max_requests = 5, skipSuccessfulRequests = True,
      handler_message = ''Too many authentication attempts, please try again later.''\<rparr>"

definition passwordResetLimiter :: limiter_options where
  "passwordResetLimiter =
     \<lparr>windowMs = 60 * 60 * 1000, max_requests = 3, skipSuccessfulRequests = False,
      handler_message = ''Too many password reset attempts, please try again later.''\<rparr>"

definition createAccountLimiter :: limiter_options where
  "createAccountLimiter =
     \<lparr>windowMs = 60 * 60 * 1000, max_requests = 100, skipSuccessfulRequests = False,
      handler_message = ''Too many accounts created from this IP, please try again later.''\<rparr>"

text \<open>
  Modelled from the spec: the window counter behind \<^verbatim>\<open>rateLimit\<close> (the express-rate-limit
  package; its code is not among the sources).  Each limiter has a store of its own,
  keyed by client IP, holding the number of hits in the running window and the time the
  window ends.  A hit opens a new window when there is none or the last one has ended.
  A request whose hit exceeds \<^verbatim>\<open>max\<close> goes to the limiter's handler, which throws, and
  the rest of the chain (\<open>handler\<close>, which answers with a status code and may change the
  application state) does not run.  With \<^verbatim>\<open>skipSuccessfulRequests\<close>, the hit of a request
  answered with a status below 400 is taken back.
\<close>

type_synonym hit_store = "string \<rightharpoonup> nat \<times> int"

definition increment :: "limiter_options \<Rightarrow> int \<Rightarrow> string \<Rightarrow> hit_store \<Rightarrow> nat \<times> hit_store" where
  "increment opts now ip st =
     (case st ip of
        None \<Rightarrow> (1, st(ip \<mapsto> (1, now + windowMs opts)))
      | Some (totalHits, resetTime) \<Rightarrow>
          if now < resetTime then (totalHits + 1, st(ip \<mapsto> (totalHits + 1, resetTime)))
          else (1, st(ip \<mapsto> (1, now + windowMs opts))))"

definition decrement :: "string \<Rightarrow> hit_store \<Rightarrow> hit_store" where
  "decrement ip st =
     (case st ip of
        None \<Rightarrow> st
      | Some (totalHits, resetTime) \<Rightarrow> st(ip \<mapsto> (totalHits - 1, resetTime)))"

definition rateLimit ::
  "limiter_options \<Rightarrow> int \<Rightarrow> string \<Rightarrow> ('a \<Rightarrow> nat \<times> 'a) \<Rightarrow> hit_store \<times> 'a
     \<Rightarrow> (error + nat) \<times> hit_store \<times> 'a" where
  "rateLimit opts now ip handler sa =
     (let (totalHits, st') = increment opts now ip (fst sa) in
      if totalHits > max_requests opts
        then (Inl (ApiError (handler_message opts) 429), st', snd sa)
      else (let (status, app') = handler (snd sa) in
            (Inr status,
             if skipSuccessfulRequests opts \<and> status < 400 then decrement ip st' else st',
             app')))"

text \<open>A client's requests at the times \<open>ts\<close>, one after the other, through one limiter.\<close>

fun run_requests ::
  "limiter_options \<Rightarrow> string \<Rightarrow> ('a \<Rightarrow> nat \<times> 'a) \<Rightarrow> int list \<Rightarrow> hit_store \<times> 'a
     \<Rightarrow> hit_store \<times> 'a" where
  "run_requests opts ip handler [] sa = sa"
| "run_requests opts ip handler (t # ts) sa =
     run_requests opts ip handler ts (snd (rateLimit opts t ip handler sa))"

text \<open>The four limiters by name, and the state of all of them.\<close>

datatype bucket = General | Auth | PasswordReset | CreateAccount

fun options_of :: "bucket \<Rightarrow> limiter_options" where
  "options_of General = generalLimiter"
| "options_of Auth = authLimiter"
| "options_of PasswordReset = passwordResetLimiter"
| "options_of CreateAccount = createAccountLimiter"

definition limited ::
  "bucket \<Rightarrow> int \<Rightarrow> string \<Rightarrow> ('a \<Rightarrow> nat \<times> 'a) \<Rightarrow> (bucket \<Rightarrow> hit_store) \<times> 'a
     \<Rightarrow> (error + nat) \<times> (bucket \<Rightarrow> hit_store) \<times> 'a" where
  "limited b now ip handler Sa =
     (let (r, st', app') = rateLimit (options_of b) now ip handler (fst Sa b, snd Sa) in
      (r, (fst Sa)(b := st'), app'))"

section \<open>Request validation\<close>

text \<open>An issue of a failed parse is its path and its message; the validation middleware
  renders the issues as \<^verbatim>\<open>path: message\<close>, joined by a comma and a space.\<close>

type_synonym issue = "string \<times> string"

fun join :: "string \<Rightarrow> string list \<Rightarrow> string" where
  "join sep [] = []"
| "join sep [x] = x"
| "join sep (x # y # ys) = x @ sep @ join sep (y # ys)"

definition errorMessages :: "issue list \<Rightarrow> string" where
  "errorMessages issues = join '', '' (map (\<lambda>err. fst err @ '': '' @ snd err) issues)"

definition isLetter :: "char \<Rightarrow> bool" where
  "isLetter c = (let n = (of_char c :: nat) in (65 \<le> n \<and> n \<le> 90) \<or> (97 \<le> n \<and> n \<le> 122))"

fun typeName :: "jval \<Rightarrow> string" where
  "typeName JNull = ''null''"
| "typeName (JBool b) = ''boolean''"
| "typeName (JNum q) = ''number''"
| "typeName (JStr s) = ''string''"

subsection \<open>userParamsSchema\<close>

definition userParamsSchema_issues :: "string option \<Rightarrow> issue list" where
  "userParamsSchema_issues p =
     (case p of
        None \<Rightarrow> [(''id'', ''Required'')]
      | Some s \<Rightarrow>
          (if length s < 1 then [(''id'', ''User ID is required'')] else []) @
          (if length s = 24 \<and> list_all isHexDigit s then []
           else [(''id'', ''Invalid user ID format'')]))"

definition validateParams :: "request \<Rightarrow> error + request" where
  "validateParams req =
     (case userParamsSchema_issues (params_id req) of
        [] \<Rightarrow> Inr req
      | issues \<Rightarrow> Inl (ApiError (''Validation failed: '' @ errorMessages issues) 400))"

subsection \<open>updateUserSchema\<close>

text \<open>
  A field of the body: its issues, whether the parse was aborted by a value of the wrong
  type, and its value.  The checks of \<^verbatim>\<open>name\<close> run in the order of the schema: the two
  length checks on the string as sent, then \<^verbatim>\<open>trim\<close>, then the pattern
  \<^verbatim>\<open>/^[a-zA-Z\s]+$/\<close> on the trimmed string.
\<close>

definition parse_name :: "lib \<Rightarrow> jval option \<Rightarrow> issue list \<times> bool \<times> string option" where
  "parse_name L v =
     (case v of
        None \<Rightarrow> ([], False, None)
      | Some (JStr s) \<Rightarrow>
          ((if length s < 2 then [(''body.name'', ''Name must be at least 2 characters long'')] else []) @
           (if length s > 50 then [(''body.name'', ''Name must be at most 50 characters long'')] else []) @
           (if trim L s \<noteq> [] \<and> list_all (\<lambda>c. isLetter c \<or> isSpace L c) (trim L s) then []
            else [(''body.name'', ''Name can only contain letters and spaces'')]),
           False, Some (trim L s))
      | Some w \<Rightarrow> ([(''body.name'', ''Expected string, received '' @ typeName w)], True, None))"

definition parse_age :: "jval option \<Rightarrow> issue list \<times> bool \<times> rat option" where
  "parse_age v =
     (case v of
        None \<Rightarrow> ([], False, None)
      | Some (JNum q) \<Rightarrow>
          ((if q = of_int \<lfloor>q\<rfloor> then [] else [(''body.age'', ''Age must be an integer'')]) @
           (if q < 13 then [(''body.age'', ''Age must be at least 13'')] else []) @
           (if q > 120 then [(''body.age'', ''Age must be at most 120'')] else []),
           False, Some q)
      | Some w \<Rightarrow> ([(''body.age'', ''Expected number, received '' @ typeName w)], True, None))"

text \<open>The object that a successful parse of the body returns: it has the keys
  \<^verbatim>\<open>name\<close> and \<^verbatim>\<open>age\<close> when they were sent, and no other key.\<close>

definition parsedBody :: "string option \<Rightarrow> rat option \<Rightarrow> (string \<rightharpoonup> jval)" where
  "parsedBody nameValue ageValue =
     (\<lambda>k. if k = ''name'' then map_option JStr nameValue
          else if k = ''age'' then map_option JNum ageValue
          else None)"

text \<open>
  The body object: keys other than \<^verbatim>\<open>name\<close> and \<^verbatim>\<open>age\<close> are stripped; the refinement
  \<^verbatim>\<open>data.name || data.age !== undefined\<close> runs unless a field aborted the parse.
\<close>

definition updateUserSchema :: "lib \<Rightarrow> (string \<rightharpoonup> jval) \<Rightarrow> issue list + (string \<rightharpoonup> jval)" where
  "updateUserSchema L b =
     (let (nameIssues, nameAborted, nameValue) = parse_name L (b ''name'');
          (ageIssues, ageAborted, ageValue) = parse_age (b ''age'');
          truthyName = (case nameValue of None \<Rightarrow> False | Some s \<Rightarrow> s \<noteq> []);
          refineIssues =
            (if nameAborted \<or> ageAborted \<or> truthyName \<or> ageValue \<noteq> None then []
             else [(''body'', ''At least one field (name or age) must be provided for update'')]);
          issues = nameIssues @ ageIssues @ refineIssues
      in if issues = [] then Inr (parsedBody nameValue ageValue) else Inl issues)"

text \<open>\<^verbatim>\<open>validateRequest(updateUserSchema)\<close>: the parsed body is written back to the
  request (\<^verbatim>\<open>req.body = validatedData.body\<close>).\<close>

definition validateRequest :: "lib \<Rightarrow> request \<Rightarrow> error + request" where
  "validateRequest L req =
     (case updateUserSchema L (body req) of
        Inr validatedBody \<Rightarrow> Inr (req\<lparr>body := validatedBody\<rparr>)
      | Inl issues \<Rightarrow>
          Inl (ApiError (''Request validation failed: '' @ errorMessages issues) 400))"

section \<open>User service and the update route\<close>

subsection \<open>The update operator\<close>

text \<open>
  \<^verbatim>\<open>{$set: updateData}\<close> with \<^verbatim>\<open>runValidators\<close>: for each of the six paths the schema
  declares, a value that \<^verbatim>\<open>updateData\<close> provides is cast to the type of the path, passed
  through the setters of the path, checked by its \<^verbatim>\<open>required\<close> validator (which refuses
  \<^verbatim>\<open>null\<close> and the empty string) and written; a key that is no path of the schema is
  dropped.  A failed cast and a failed validator reject the update.  No hook runs, so a
  password is written as it is given.
\<close>

definition andThen :: "error + 'a \<Rightarrow> ('a \<Rightarrow> error + 'b) \<Rightarrow> error + 'b" where
  "andThen r f = (case r of Inl e \<Rightarrow> Inl e | Inr v \<Rightarrow> f v)"

definition castString :: "lib \<Rightarrow> jval \<Rightarrow> error + string option" where
  "castString L v =
     (case v of
        JNull \<Rightarrow> Inr None
      | JStr s \<Rightarrow> Inr (Some s)
      | w \<Rightarrow> (case cast_string L w of
                None \<Rightarrow> Inl (Error ''Cast to string failed'')
              | Some s \<Rightarrow> Inr (Some s)))"

definition castNumber :: "lib \<Rightarrow> jval \<Rightarrow> error + rat option" where
  "castNumber L v =
     (case v of
        JNull \<Rightarrow> Inr None
      | JNum q \<Rightarrow> Inr (Some q)
      | w \<Rightarrow> (case cast_number L w of
                None \<Rightarrow> Inl (Error ''Cast to Number failed'')
              | Some q \<Rightarrow> Inr (Some q)))"

definition castDate :: "lib \<Rightarrow> jval \<Rightarrow> error + int option" where
  "castDate L v =
     (case v of
        JNull \<Rightarrow> Inr None
      | w \<Rightarrow> (case cast_date L w of
                None \<Rightarrow> Inl (Error ''Cast to date failed'')
              | Some t \<Rightarrow> Inr (Some t)))"

definition requiredString :: "string option \<Rightarrow> error + string" where
  "requiredString v =
     (case v of
        None \<Rightarrow> Inl (Error ''Validation failed'')
      | Some s \<Rightarrow> if s = [] then Inl (Error ''Validation failed'') else Inr s)"

definition requiredNumber :: "rat option \<Rightarrow> error + rat" where
  "requiredNumber v =
     (case v of None \<Rightarrow> Inl (Error ''Validation failed'') | Some q \<Rightarrow> Inr q)"

definition set_name :: "lib \<Rightarrow> jval option \<Rightarrow> error + (user_doc \<Rightarrow> user_doc)" where
  "set_name L v =
     (case v of
        None \<Rightarrow> Inr (\<lambda>d. d)
      | Some w \<Rightarrow>
          andThen (castString L w) (\<lambda>c.
          andThen (requiredString (map_option (trim L) c)) (\<lambda>n.
          Inr (\<lambda>d. d\<lparr>name := n\<rparr>))))"

definition set_email :: "lib \<Rightarrow> jval option \<Rightarrow> error + (user_doc \<Rightarrow> user_doc)" where
  "set_email L v =
     (case v of
        None \<Rightarrow> Inr (\<lambda>d. d)
      | Some w \<Rightarrow>
          andThen (castString L w) (\<lambda>c.
          andThen (requiredString (map_option (emailSetter L) c)) (\<lambda>e.
          Inr (\<lambda>d. d\<lparr>email := e\<rparr>))))"

definition set_password :: "lib \<Rightarrow> jval option \<Rightarrow> error + (user_doc \<Rightarrow> user_doc)" where
  "set_password L v =
     (case v of
        None \<Rightarrow> Inr (\<lambda>d. d)
      | Some w \<Rightarrow>
          andThen (castString L w) (\<lambda>c.
          andThen (requiredString c) (\<lambda>p.
          Inr (\<lambda>d. d\<lparr>password := p\<rparr>))))"

definition set_age :: "lib \<Rightarrow> jval option \<Rightarrow> error + (user_doc \<Rightarrow> user_doc)" where
  "set_age L v =
     (case v of
        None \<Rightarrow> Inr (\<lambda>d. d)
      | Some w \<Rightarrow>
          andThen (castNumber L w) (\<lambda>c.
          andThen (requiredNumber c) (\<lambda>a.
          Inr (\<lambda>d. d\<lparr>age := a\<rparr>))))"

definition set_passwordResetToken :: "lib \<Rightarrow> jval option \<Rightarrow> error + (user_doc \<Rightarrow> user_doc)" where
  "set_passwordResetToken L v =
     (case v of
        None \<Rightarrow> Inr (\<lambda>d. d)
      | Some w \<Rightarrow> andThen (castString L w) (\<lambda>c. Inr (\<lambda>d. d\<lparr>passwordResetToken := c\<rparr>)))"

definition set_passwordResetExpires :: "lib \<Rightarrow> jval option \<Rightarrow> error + (user_doc \<Rightarrow> user_doc)" where
  "set_passwordResetExpires L v =
     (case v of
        None \<Rightarrow> Inr (\<lambda>d. d)
      | Some w \<Rightarrow> andThen (castDate L w) (\<lambda>c. Inr (\<lambda>d. d\<lparr>passwordResetExpires := c\<rparr>)))"

definition cast_update :: "lib \<Rightarrow> (string \<rightharpoonup> jval) \<Rightarrow> error + (user_doc \<Rightarrow> user_doc)" where
  "cast_update L updateData =
     andThen (set_name L (updateData ''name'')) (\<lambda>f1.
     andThen (set_email L (updateData ''email'')) (\<lambda>f2.
     andThen (set_password L (updateData ''password'')) (\<lambda>f3.
     andThen (set_age L (updateData ''age'')) (\<lambda>f4.
     andThen (set_passwordResetToken L (updateData ''passwordResetToken'')) (\<lambda>f5.
     andThen (set_passwordResetExpires L (updateData ''passwordResetExpires'')) (\<lambda>f6.
     Inr (\<lambda>d. f6 (f5 (f4 (f3 (f2 (f1 d))))))))))))"

subsection \<open>updateUser\<close>

text \<open>
  \<^verbatim>\<open>findByIdAndUpdate(userId, {$set: updateData}, {new: true, runValidators: true})\<close>: the
  id and the update are cast and the update validated before the store is asked; the
  store answers \<^verbatim>\<open>null\<close> when it has no document of the id, and refuses a write that
  changes the email to one that a document has (the unique index).  \<open>attempt\<close> is the
  query, the case distinction after it the rest of the \<^verbatim>\<open>try\<close> and the \<^verbatim>\<open>catch\<close>.
\<close>

definition updateUser ::
  "lib \<Rightarrow> collection \<Rightarrow> string \<Rightarrow> (string \<rightharpoonup> jval) \<Rightarrow> (error + json) \<times> collection" where
  "updateUser L db userId updateData =
     (let attempt =
        (case castObjectId userId of
           None \<Rightarrow> Inl (Error ''Cast to ObjectId failed'')
         | Some oid \<Rightarrow>
             (case cast_update L updateData of
                Inl e \<Rightarrow> Inl e
              | Inr f \<Rightarrow>
                  (case byId db oid of
                     None \<Rightarrow> Inr None
                   | Some found \<Rightarrow>
                       if email (f found) \<noteq> email found \<and>
                          list_ex (\<lambda>x. email x = email (f found)) db
                         then Inl (Error ''E11000 duplicate key error'')
                       else Inr (Some (oid, f, f found)))))
      in case attempt of
           Inl e \<Rightarrow> (rethrow ''Failed to update user'' (Inl e), db)
         | Inr None \<Rightarrow> (Inl (ApiError ''User not found'' 404), db)
         | Inr (Some (oid, f, user)) \<Rightarrow> (Inr (toJSON user), updateOne oid f db))"

text \<open>The controller \<^verbatim>\<open>updateUser\<close>: \<^verbatim>\<open>updateData\<close> is the body of the request.\<close>

definition updateUser_controller ::
  "lib \<Rightarrow> collection \<Rightarrow> request \<Rightarrow> (error + json) \<times> collection" where
  "updateUser_controller L db req =
     (let updateData = body req in
      case params_id req of
        None \<Rightarrow> (Inl (ApiError ''User ID is required'' 400), db)
      | Some i \<Rightarrow>
          if i = [] then (Inl (ApiError ''User ID is required'' 400), db)
          else (case req_user req of
                  None \<Rightarrow> (Inl (Error ''Cannot read properties of undefined''), db)
                | Some u \<Rightarrow>
                    if user_id u \<noteq> i
                      then (Inl (ApiError ''You can only update your own profile'' 403), db)
                    else updateUser L db i updateData))"

text \<open>The chain of \<^verbatim>\<open>PUT /:id\<close> behind the general limiter: \<^verbatim>\<open>authenticate\<close>,
  \<^verbatim>\<open>requireSelfAccess\<close>, \<^verbatim>\<open>validateParams\<close>, \<^verbatim>\<open>validateRequest\<close>, the controller.\<close>

definition putUser ::
  "lib \<Rightarrow> env \<Rightarrow> int \<Rightarrow> collection \<Rightarrow> request \<Rightarrow> (error + json) \<times> collection" where
  "putUser L E now db req =
     (case authenticate L E now db req of
        Inl e \<Rightarrow> (Inl e, db)
      | Inr req1 \<Rightarrow>
          (case requireSelfAccess req1 of
             Inl e \<Rightarrow> (Inl e, db)
           | Inr req2 \<Rightarrow>
               (case validateParams req2 of
                  Inl e \<Rightarrow> (Inl e, db)
                | Inr req3 \<Rightarrow>
                    (case validateRequest L req3 of
                       Inl e \<Rightarrow> (Inl e, db)
                     | Inr req4 \<Rightarrow> updateUser_controller L db req4))))"

section \<open>Sample data\<close>

text \<open>A store with one user, a configuration, and stand-ins for the runtime and the
  libraries that are simple enough to be evaluated: the worked examples below run on them.\<close>

definition sample_secret :: string where
  "sample_secret = ''0123456789abcdef0123456789abcdef''"

definition sample_env :: env where
  "sample_env =
     \<lparr>process_env_JWT_SECRET = Some sample_secret, process_env_JWT_EXPIRES_IN = None,
      JWT_SECRET = sample_secret, JWT_EXPIRES_IN = ''7d'', BCRYPT_ROUND = 12\<rparr>"

definition jane :: user_doc where
  "jane =
     \<lparr>doc_id = ''64b0c0ffee0000000000000a'', name = ''Jane Roe'', email = ''jane@example.com'',
      password = ''$2b$12$secret1'', age = 30,
      passwordResetToken = None, passwordResetExpires = None\<rparr>"

definition sample_db :: collection where
  "sample_db = [jane]"

definition jane_claims :: jwt_payload where
  "jane_claims =
     \<lparr>jwt_id = Some ''64b0c0ffee0000000000000a'', jwt_email = Some ''jane@example.com'',
      iat = Some 1700000000, exp = Some 1700604800\<rparr>"

text \<open>A second user, his claims, and claims that lack the id.\<close>

definition bob :: user_doc where
  "bob =
     \<lparr>doc_id = ''64b0c0ffee0000000000000b'', name = ''Bob Poe'', email = ''bob@example.com'',
      password = ''$2b$12$secret7'', age = 52,
      passwordResetToken = None, passwordResetExpires = None\<rparr>"

definition bob_claims :: jwt_payload where
  "bob_claims =
     \<lparr>jwt_id = Some ''64b0c0ffee0000000000000b'', jwt_email = Some ''bob@example.com'',
      iat = Some 1700000000, exp = Some 1700604800\<rparr>"

definition noid_claims :: jwt_payload where
  "noid_claims =
     \<lparr>jwt_id = None, jwt_email = Some ''jane@example.com'',
      iat = Some 1700000000, exp = Some 1700604800\<rparr>"

definition sample_lib :: lib where
  "sample_lib =
     \<lparr>toLowerCase = asciiLower, trim = asciiTrim, isSpace = asciiSpace,
      bcrypt_hash = (\<lambda>pw rounds. Some (''$2b$12$'' @ pw)),
      bcrypt_compare = (\<lambda>pw h. Some (h = ''$2b$12$'' @ pw)),
      jws_seal = (\<lambda>c k. if c = jane_claims \<and> k = sample_secret then ''jane.token''
                          else if c = bob_claims \<and> k = sample_secret then ''bob.token''
                          else ''other.token''),
      jws_unseal = (\<lambda>t k. if t = ''jane.token'' \<or> t = ''bob.token'' \<or> t = ''noid.token''
                            then (if k \<noteq> sample_secret then Inl ''invalid signature''
                                  else if t = ''jane.token'' then Inr jane_claims
                                  else if t = ''bob.token'' then Inr bob_claims
                                  else Inr noid_claims)
                            else Inl ''jwt malformed''),
      timespan_ms = (\<lambda>s. if s = ''7d'' then Some 604800000 else None),
      random_source = (\<lambda>i. of_nat i),
      query_rejected = False,
      cast_string = (\<lambda>v. None), cast_number = (\<lambda>v. None), cast_date = (\<lambda>v. None)\<rparr>"


text \<open>Jane's request to rename herself, with two fields in the body that the update
  schema does not know.\<close>

definition jane_put :: request where
  "jane_put =
     \<lparr>authorization = Some ''Bearer jane.token'',
      params_id = Some ''64b0c0ffee0000000000000a'',
      body = [''name'' \<mapsto> JStr ''Jane Doe'', ''email'' \<mapsto> JStr ''mallory@example.com'',
              ''password'' \<mapsto> JStr ''plaintext''],
      req_user = None\<rparr>"

text \<open>A client that has used up its five authentication attempts of the window ending at
  1700000900000, and a handler that answers 401 and counts its runs.\<close>

definition sample_hits :: "bucket \<Rightarrow> hit_store" where
  "sample_hits = (\<lambda>b. Map.empty)(Auth := [''10.0.0.1'' \<mapsto> (5, 1700000900000)])"

definition sample_handler :: "nat \<Rightarrow> nat \<times> nat" where
  "sample_handler runs = (401, Suc runs)"


section \<open>Auxiliary facts\<close>

subsection \<open>Queries and updates\<close>

lemma find_None_set: "find P xs = None \<longleftrightarrow> (\<forall>x \<in> set xs. \<not> P x)"
  by (induction xs) auto

lemma find_Some_set: "find P xs = Some x \<Longrightarrow> x \<in> set xs \<and> P x"
  by (induction xs) (auto split: if_splits)

lemma findOne_email_None:
  "findOne_email L db e = None \<longleftrightarrow> (\<forall>u \<in> set db. email u \<noteq> emailSetter L e)"
  by (simp add: findOne_email_def find_None_set)


lemma byId_None: "byId db i = None \<longleftrightarrow> (\<forall>u \<in> set db. doc_id u \<noteq> i)"
  by (simp add: byId_def find_None_set)


lemma byId_set: "byId db i = Some u \<Longrightarrow> u \<in> set db"
  using find_Some_set [of "\<lambda>d. doc_id d = i" db u] by (simp add: byId_def)



lemma updateOne_ident [simp]: "updateOne i (\<lambda>d. d) db = db"
  by (induction db) auto

lemma map_updateOne: "(\<And>d. g (f d) = g d) \<Longrightarrow> map g (updateOne i f db) = map g db"
  by (induction db) auto




lemma castObjectId_None: "castObjectId i = None \<Longrightarrow> findById db i = Inl (Error ''Cast to ObjectId failed'')"
  by (simp add: findById_def)

lemma castObjectId_Some: "castObjectId i = Some oid \<Longrightarrow> findById db i = Inr (byId db oid)"
  by (simp add: findById_def)

subsection \<open>Random tokens\<close>





subsection \<open>Tokens\<close>

lemma generateToken_returns:
  assumes "or_else (process_env_JWT_SECRET E) (JWT_SECRET E) \<noteq> []"
    and "timespan_ms L (or_else (process_env_JWT_EXPIRES_IN E)
            (if JWT_EXPIRES_IN E = [] then ''7d'' else JWT_EXPIRES_IN E)) = Some ms"
  shows "generateToken L E now p =
           Inr (jws_seal L \<lparr>jwt_id = Some (fst p), jwt_email = Some (snd p),
                  iat = Some (now div 1000), exp = Some (now div 1000 + ms div 1000)\<rparr>
                 (or_else (process_env_JWT_SECRET E) (JWT_SECRET E)))"
  using assms by (simp add: generateToken_def jwt_sign_def Let_def)

lemma generateToken_error:
  "generateToken L E now p = Inl e \<Longrightarrow> e = ApiError ''Failed to generate authentication token'' 500"
  by (auto simp: generateToken_def Let_def split: sum.splits)




lemma verifyToken_error:
  "verifyToken L E t tok = Inl e \<Longrightarrow> \<exists>m. e = ApiError m 401"
  by (auto simp: verifyToken_def jwt_verify_def Let_def
      split: if_splits sum.splits error.splits option.splits)

lemma verifyToken_claims:
  "verifyToken L E t tok = Inr c \<Longrightarrow> jwt_id c \<noteq> None \<and> jwt_email c \<noteq> None"
  by (auto simp: verifyToken_def jwt_verify_def Let_def
      split: if_splits sum.splits error.splits option.splits)

subsection \<open>Changing the password\<close>






subsection \<open>Password reset\<close>











subsection \<open>Registration\<close>

lemma toJSON_no_password: "map_of (toJSON d) ''password'' = None"
  by (simp add: toJSON_def toObject_def)

lemma registerUser_conflict:
  assumes "\<exists>u \<in> set db. email u = emailSetter L (reg_email ud)"
  shows "registerUser L E now oid db ud = (Inl (ApiError ''Email already registered'' 409), db)"
proof -
  from assms have "findOne_email L db (reg_email ud) \<noteq> None"
    by (simp add: findOne_email_None)
  then show ?thesis
    by (auto simp: registerUser_def)
qed

lemma registerUser_creates:
  assumes none: "\<forall>u \<in> set db. email u \<noteq> emailSetter L (reg_email ud)"
    and req: "trim L (reg_name ud) \<noteq> []" "emailSetter L (reg_email ud) \<noteq> []" "reg_password ud \<noteq> []"
    and h: "bcrypt_hash L (reg_password ud) (BCRYPT_ROUND E) = Some h"
    and sec: "or_else (process_env_JWT_SECRET E) (JWT_SECRET E) \<noteq> []"
    and ms: "timespan_ms L (or_else (process_env_JWT_EXPIRES_IN E)
            (if JWT_EXPIRES_IN E = [] then ''7d'' else JWT_EXPIRES_IN E)) = Some ms"
  shows "registerUser L E now oid db ud =
           (Inr \<lparr>success = True, message = ''User registered successfully'',
                 data_user = Some (toJSON ((new_User L oid ud)\<lparr>password := h\<rparr>)),
                 data_token =
                   Some (jws_seal L
                          \<lparr>jwt_id = Some oid, jwt_email = Some (emailSetter L (reg_email ud)),
                           iat = Some (now div 1000), exp = Some (now div 1000 + ms div 1000)\<rparr>
                          (or_else (process_env_JWT_SECRET E) (JWT_SECRET E))),
                 resetToken = None\<rparr>,
            db @ [(new_User L oid ud)\<lparr>password := h\<rparr>])"
proof -
  have f: "findOne_email L db (reg_email ud) = None"
    using none by (simp add: findOne_email_None)
  have ex: "\<not> list_ex (\<lambda>x. email x = email (new_User L oid ud)) db"
    using none by (simp add: list_ex_iff new_User_def)
  have sv: "save_new L E db (new_User L oid ud) =
          Inr ((new_User L oid ud)\<lparr>password := h\<rparr>, db @ [(new_User L oid ud)\<lparr>password := h\<rparr>])"
    using ex req h
    by (simp add: save_new_def hashPassword_def new_User_def Let_def)
  have g: "generateToken L E now (oid, emailSetter L (reg_email ud)) =
             Inr (jws_seal L
                          \<lparr>jwt_id = Some oid, jwt_email = Some (emailSetter L (reg_email ud)),
                           iat = Some (now div 1000), exp = Some (now div 1000 + ms div 1000)\<rparr>
                          (or_else (process_env_JWT_SECRET E) (JWT_SECRET E)))"
    using generateToken_returns [OF sec ms, of now "(oid, emailSetter L (reg_email ud))"] by simp
  have ie: "doc_id ((new_User L oid ud)\<lparr>password := h\<rparr>) = oid"
       "email ((new_User L oid ud)\<lparr>password := h\<rparr>) = emailSetter L (reg_email ud)"
    by (simp_all add: new_User_def)
  show ?thesis
    using f sv g ie by (simp add: registerUser_def)
qed

lemma registerUser_again:
  assumes same: "emailSetter L (reg_email ud') = emailSetter L (reg_email ud)"
    and mem: "d \<in> set db'" "email d = emailSetter L (reg_email ud)"
  shows "registerUser L E now' oid' db' ud' = (Inl (ApiError ''Email already registered'' 409), db')"
  using registerUser_conflict [of db' L ud' E now' oid'] same mem by auto

subsection \<open>Middleware\<close>

lemma extractToken_bearer: "authorization req = Some (''Bearer '' @ t) \<Longrightarrow> extractToken req = Some t"
  by (simp add: extractToken_def)

lemma extractToken_none:
  "authorization req = None \<or> (\<exists>h. authorization req = Some h \<and> take 7 h \<noteq> ''Bearer '') \<Longrightarrow>
     extractToken req = None"
  by (auto simp: extractToken_def)

lemma extractToken_empty: "authorization req = Some ''Bearer '' \<Longrightarrow> extractToken req = Some []"
  by (simp add: extractToken_def)

lemma getUserByEmail_rejected:
  "query_rejected L \<Longrightarrow> getUserByEmail L db e = Inl (ApiError ''Failed to fetch user'' 500)"
  by (simp add: getUserByEmail_def)

lemma getUserByEmail_answer:
  "\<not> query_rejected L \<Longrightarrow>
     getUserByEmail L db e = Inr (find (\<lambda>d. email d = emailSetter L (toLowerCase L e)) db)"
  by (simp add: getUserByEmail_def findOne_email_def)

lemma getUserByEmail_error:
  "getUserByEmail L db e = Inl err \<Longrightarrow> err = ApiError ''Failed to fetch user'' 500 \<and> query_rejected L"
  by (auto simp: getUserByEmail_def Let_def split: if_splits)

lemma authenticate_no_credential:
  "extractToken req = None \<or> extractToken req = Some [] \<Longrightarrow>
     authenticate L E now db req = Inl (ApiError ''Access token is required. Please log in.'' 401)
     \<and> optionalAuth L E now db req = Inr req"
  by (auto simp: authenticate_def optionalAuth_def)

lemma authenticate_bad_token:
  "extractToken req = Some t \<Longrightarrow> t \<noteq> [] \<Longrightarrow> verifyToken L E now t = Inl e \<Longrightarrow>
     authenticate L E now db req = Inl e \<and> (\<exists>m. e = ApiError m 401)
     \<and> optionalAuth L E now db req = Inr req"
  using verifyToken_error [of L E now t e]
  by (auto simp: authenticate_def optionalAuth_def)

lemma authenticate_empty_claim:
  "extractToken req = Some t \<Longrightarrow> t \<noteq> [] \<Longrightarrow> verifyToken L E now t = Inr p \<Longrightarrow>
   jwt_id p = Some i \<Longrightarrow> jwt_email p = Some e \<Longrightarrow> i = [] \<or> e = [] \<Longrightarrow>
     authenticate L E now db req = Inl (ApiError ''Invalid token. Please log in again.'' 401)
     \<and> optionalAuth L E now db req = Inr req"
  by (auto simp: authenticate_def optionalAuth_def)

lemma authenticate_store_fails:
  "extractToken req = Some t \<Longrightarrow> t \<noteq> [] \<Longrightarrow> verifyToken L E now t = Inr p \<Longrightarrow>
   jwt_id p = Some i \<Longrightarrow> jwt_email p = Some e \<Longrightarrow> i \<noteq> [] \<Longrightarrow> e \<noteq> [] \<Longrightarrow>
   query_rejected L \<Longrightarrow>
     authenticate L E now db req = Inl (ApiError ''Failed to fetch user'' 500)
     \<and> optionalAuth L E now db req = Inr req"
  by (simp add: authenticate_def optionalAuth_def getUserByEmail_rejected)

lemma authenticate_gone:
  "extractToken req = Some t \<Longrightarrow> t \<noteq> [] \<Longrightarrow> verifyToken L E now t = Inr p \<Longrightarrow>
   jwt_id p = Some i \<Longrightarrow> jwt_email p = Some e \<Longrightarrow> i \<noteq> [] \<Longrightarrow> e \<noteq> [] \<Longrightarrow>
   \<not> query_rejected L \<Longrightarrow>
   \<forall>u \<in> set db. email u \<noteq> emailSetter L (toLowerCase L e) \<Longrightarrow>
     authenticate L E now db req
       = Inl (ApiError ''The user belonging to this token no longer exists.'' 401)
     \<and> optionalAuth L E now db req = Inr req"
  using find_None_set [of "\<lambda>d. email d = emailSetter L (toLowerCase L e)" db]
  by (simp add: authenticate_def optionalAuth_def getUserByEmail_answer)

lemma authenticate_ok:
  "extractToken req = Some t \<Longrightarrow> t \<noteq> [] \<Longrightarrow> verifyToken L E now t = Inr p \<Longrightarrow>
   jwt_id p = Some i \<Longrightarrow> jwt_email p = Some e \<Longrightarrow> i \<noteq> [] \<Longrightarrow> e \<noteq> [] \<Longrightarrow>
   \<not> query_rejected L \<Longrightarrow>
   find (\<lambda>d. email d = emailSetter L (toLowerCase L e)) db = Some u \<Longrightarrow>
     authenticate L E now db req
       = Inr (req\<lparr>req_user := Some \<lparr>user_id = doc_id u, user_email = email u\<rparr>\<rparr>)
     \<and> optionalAuth L E now db req
       = Inr (req\<lparr>req_user := Some \<lparr>user_id = doc_id u, user_email = email u\<rparr>\<rparr>)"
  by (simp add: authenticate_def optionalAuth_def getUserByEmail_answer)

lemma authenticate_outcome:
  "(\<exists>e. authenticate L E now db req = Inl e
        \<and> ((\<exists>m. e = ApiError m 401) \<or> (query_rejected L \<and> e = ApiError ''Failed to fetch user'' 500))
        \<and> optionalAuth L E now db req = Inr req)
   \<or> (\<exists>u \<in> set db.
         authenticate L E now db req
           = Inr (req\<lparr>req_user := Some \<lparr>user_id = doc_id u, user_email = email u\<rparr>\<rparr>)
         \<and> optionalAuth L E now db req
           = Inr (req\<lparr>req_user := Some \<lparr>user_id = doc_id u, user_email = email u\<rparr>\<rparr>))"
proof (cases "extractToken req = None \<or> extractToken req = Some []")
  case True
  then show ?thesis using authenticate_no_credential [of req L E now db] by blast
next
  case False
  then obtain t where t: "extractToken req = Some t" "t \<noteq> []" by auto
  show ?thesis
  proof (cases "verifyToken L E now t")
    case (Inl e)
    then show ?thesis using authenticate_bad_token [OF t, of L E now e db] by blast
  next
    case (Inr p)
    from verifyToken_claims [OF Inr] obtain i e where
      ie: "jwt_id p = Some i" "jwt_email p = Some e" by auto
    show ?thesis
    proof (cases "i = [] \<or> e = []")
      case True
      then show ?thesis using authenticate_empty_claim [OF t Inr ie, of db] by blast
    next
      case ne: False
      then have n: "i \<noteq> []" "e \<noteq> []" by simp_all
      show ?thesis
      proof (cases "query_rejected L")
        case True
        then show ?thesis using authenticate_store_fails [OF t Inr ie n, of db] by blast
      next
        case q: False
        show ?thesis
        proof (cases "find (\<lambda>d. email d = emailSetter L (toLowerCase L e)) db")
          case None
          then have "\<forall>u \<in> set db. email u \<noteq> emailSetter L (toLowerCase L e)"
            by (simp add: find_None_set)
          then show ?thesis using authenticate_gone [OF t Inr ie n q, of db] by blast
        next
          case (Some u)
          then have "u \<in> set db" using find_Some_set by fast
          then show ?thesis using authenticate_ok [OF t Inr ie n q Some] by blast
        qed
      qed
    qed
  qed
qed

lemma optionalAuth_passes: "\<exists>r. optionalAuth L E now db req = Inr r"
  using authenticate_outcome [of L E now db req] by blast

lemma authenticate_rejects:
  "authenticate L E now db req = Inl e \<Longrightarrow>
     ((\<exists>m. e = ApiError m 401) \<or> (query_rejected L \<and> e = ApiError ''Failed to fetch user'' 500))
     \<and> optionalAuth L E now db req = Inr req"
  using authenticate_outcome [of L E now db req] by auto

lemma authenticate_accepts:
  "authenticate L E now db req = Inr r \<Longrightarrow> optionalAuth L E now db req = Inr r"
  using authenticate_outcome [of L E now db req] by auto

lemma authenticate_attaches:
  "authenticate L E now db req = Inr r \<Longrightarrow>
     \<exists>u \<in> set db. r = req\<lparr>req_user := Some \<lparr>user_id = doc_id u, user_email = email u\<rparr>\<rparr>"
  using authenticate_outcome [of L E now db req] by auto

subsection \<open>Rate limiting\<close>

lemma rateLimit_rejects:
  "st ip = Some (hits, resetTime) \<Longrightarrow> max_requests opts \<le> hits \<Longrightarrow> now < resetTime \<Longrightarrow>
     rateLimit opts now ip handler (st, app)
       = (Inl (ApiError (handler_message opts) 429), st(ip \<mapsto> (hits + 1, resetTime)), app)"
  by (simp add: rateLimit_def increment_def)

lemma rateLimit_passes:
  "st ip = Some (hits, resetTime) \<Longrightarrow> hits < max_requests opts \<Longrightarrow> now < resetTime \<Longrightarrow>
   handler app = (status, app') \<Longrightarrow>
     rateLimit opts now ip handler (st, app)
       = (Inr status,
          if skipSuccessfulRequests opts \<and> status < 400 then st
          else st(ip \<mapsto> (hits + 1, resetTime)),
          app')"
  by (auto simp: rateLimit_def increment_def decrement_def)

lemma rateLimit_new_window:
  "st ip = None \<or> (\<exists>hits resetTime. st ip = Some (hits, resetTime) \<and> resetTime \<le> now) \<Longrightarrow>
   1 \<le> max_requests opts \<Longrightarrow> handler app = (status, app') \<Longrightarrow>
     fst (rateLimit opts now ip handler (st, app)) = Inr status"
  by (auto simp: rateLimit_def increment_def decrement_def)

lemma rateLimit_other_ip:
  "ip' \<noteq> ip \<Longrightarrow> fst (snd (rateLimit opts now ip handler (st, app))) ip' = st ip'"
  by (auto simp: rateLimit_def increment_def decrement_def
      split: option.splits prod.splits if_splits)

lemma limited_other_bucket:
  "b' \<noteq> b \<Longrightarrow> fst (snd (limited b now ip handler (S, app))) b' = S b'"
  by (simp add: limited_def split: prod.splits)

lemma limited_other_ip:
  "ip' \<noteq> ip \<Longrightarrow> fst (snd (limited b now ip handler (S, app))) b ip' = S b ip'"
  using rateLimit_other_ip [of ip' ip "options_of b" now handler "S b" app]
  by (cases "rateLimit (options_of b) now ip handler (S b, app)") (simp add: limited_def)

lemma limited_rejects:
  "S b ip = Some (hits, resetTime) \<Longrightarrow> max_requests (options_of b) \<le> hits \<Longrightarrow>
   now < resetTime \<Longrightarrow>
     limited b now ip handler (S, app)
       = (Inl (ApiError (handler_message (options_of b)) 429),
          S(b := (S b)(ip \<mapsto> (hits + 1, resetTime))), app)"
  by (simp add: limited_def rateLimit_rejects)

lemma limited_passes:
  "S b ip = Some (hits, resetTime) \<Longrightarrow> hits < max_requests (options_of b) \<Longrightarrow>
   now < resetTime \<Longrightarrow> handler app = (status, app') \<Longrightarrow>
     limited b now ip handler (S, app)
       = (Inr status,
          if skipSuccessfulRequests (options_of b) \<and> status < 400 then S
          else S(b := (S b)(ip \<mapsto> (hits + 1, resetTime))),
          app')"
  by (simp add: limited_def rateLimit_passes)

lemma limited_new_window:
  "S b ip = None \<or> (\<exists>hits resetTime. S b ip = Some (hits, resetTime) \<and> resetTime \<le> now) \<Longrightarrow>
   handler app = (status, app') \<Longrightarrow>
     fst (limited b now ip handler (S, app)) = Inr status"
proof -
  assume a: "S b ip = None \<or> (\<exists>hits resetTime. S b ip = Some (hits, resetTime) \<and> resetTime \<le> now)"
    and h: "handler app = (status, app')"
  have "1 \<le> max_requests (options_of b)"
    by (cases b)
       (simp_all add: generalLimiter_def authLimiter_def passwordResetLimiter_def
          createAccountLimiter_def)
  from rateLimit_new_window [of "S b" ip now "options_of b" handler app status app'] a this h
  show ?thesis
    by (cases "rateLimit (options_of b) now ip handler (S b, app)") (simp add: limited_def)
qed

lemma rateLimit_counts:
  assumes "st ip = Some (h, rt)" "t < rt"
    and "\<not> skipSuccessfulRequests opts \<or> (\<forall>a. 400 \<le> fst (handler a))"
  shows "fst (snd (rateLimit opts t ip handler (st, app))) ip = Some (h + 1, rt)"
proof -
  have "\<not> (skipSuccessfulRequests opts \<and> fst (handler app) < 400)"
    using assms(3) by (auto simp: not_less)
  with assms(1,2) show ?thesis
    by (cases "handler app") (auto simp: rateLimit_def increment_def)
qed

lemma rateLimit_first:
  assumes "st ip = None"
    and "\<not> skipSuccessfulRequests opts \<or> (\<forall>a. 400 \<le> fst (handler a))"
  shows "fst (snd (rateLimit opts t ip handler (st, app))) ip = Some (1, t + windowMs opts)"
proof -
  have "\<not> (skipSuccessfulRequests opts \<and> fst (handler app) < 400)"
    using assms(2) by (auto simp: not_less)
  with assms(1) show ?thesis
    by (cases "handler app") (auto simp: rateLimit_def increment_def)
qed

lemma run_requests_counts:
  assumes "st ip = Some (h, rt)" "\<forall>t \<in> set ts. t < rt"
    and "\<not> skipSuccessfulRequests opts \<or> (\<forall>a. 400 \<le> fst (handler a))"
  shows "fst (run_requests opts ip handler ts (st, app)) ip = Some (h + length ts, rt)"
  using assms
proof (induction ts arbitrary: st app h)
  case Nil
  then show ?case by simp
next
  case (Cons t ts)
  obtain r st' app' where r: "rateLimit opts t ip handler (st, app) = (r, st', app')"
    by (cases "rateLimit opts t ip handler (st, app)")
  from rateLimit_counts [of st ip h rt t opts handler app] Cons.prems r
  have "st' ip = Some (h + 1, rt)" by simp
  moreover have "\<forall>t \<in> set ts. t < rt" using Cons.prems by simp
  ultimately have "fst (run_requests opts ip handler ts (st', app')) ip
      = Some (h + 1 + length ts, rt)"
    using Cons.prems(3) by (rule Cons.IH)
  with r show ?case by simp
qed

lemma run_requests_exhausts:
  assumes none: "st ip = None"
    and win: "\<forall>t \<in> set ts. t < t0 + windowMs opts"
    and len: "Suc (length ts) = max_requests opts"
    and nc: "\<not> skipSuccessfulRequests opts \<or> (\<forall>a. 400 \<le> fst (handler a))"
    and t: "t < t0 + windowMs opts"
  shows "fst (rateLimit opts t ip handler (run_requests opts ip handler (t0 # ts) (st, app)))
           = Inl (ApiError (handler_message opts) 429)"
proof -
  obtain r st' app' where r: "rateLimit opts t0 ip handler (st, app) = (r, st', app')"
    by (cases "rateLimit opts t0 ip handler (st, app)")
  from rateLimit_first [where st = st and ip = ip and opts = opts and handler = handler
      and t = t0 and app = app] none nc r
  have 1: "st' ip = Some (1, t0 + windowMs opts)" by simp
  obtain st'' app'' where rr: "run_requests opts ip handler ts (st', app') = (st'', app'')"
    by (cases "run_requests opts ip handler ts (st', app')")
  from run_requests_counts [where st = st' and ip = ip and h = 1 and rt = "t0 + windowMs opts"
      and ts = ts and opts = opts and handler = handler and app = app'] 1 win nc rr
  have 2: "st'' ip = Some (1 + length ts, t0 + windowMs opts)" by simp
  have "rateLimit opts t ip handler (st'', app'')
          = (Inl (ApiError (handler_message opts) 429),
             st''(ip \<mapsto> (1 + length ts + 1, t0 + windowMs opts)), app'')"
    using rateLimit_rejects [where st = st'' and ip = ip and hits = "1 + length ts"
        and resetTime = "t0 + windowMs opts" and opts = opts and now = t and handler = handler
        and app = app''] 2 len t by simp
  with r rr show ?thesis by simp
qed

lemma limiter_options_values:
  "windowMs generalLimiter = 15 * 60 * 1000 \<and> max_requests generalLimiter = 100
   \<and> \<not> skipSuccessfulRequests generalLimiter
   \<and> windowMs authLimiter = 15 * 60 * 1000 \<and> max_requests authLimiter = 5
   \<and> skipSuccessfulRequests authLimiter
   \<and> windowMs passwordResetLimiter = 60 * 60 * 1000 \<and> max_requests passwordResetLimiter = 3
   \<and> \<not> skipSuccessfulRequests passwordResetLimiter
   \<and> windowMs createAccountLimiter = 60 * 60 * 1000 \<and> max_requests createAccountLimiter = 100
   \<and> \<not> skipSuccessfulRequests createAccountLimiter"
  by (simp add: generalLimiter_def authLimiter_def passwordResetLimiter_def
        createAccountLimiter_def)

subsection \<open>Updating a user\<close>

lemma parsedBody_keys: "k \<noteq> ''name'' \<Longrightarrow> k \<noteq> ''age'' \<Longrightarrow> parsedBody n a k = None"
  by (simp add: parsedBody_def)

lemma updateUserSchema_parsed:
  assumes "updateUserSchema L b = Inr vb"
  shows "\<exists>n a. vb = parsedBody n a
           \<and> (n = None \<and> b ''name'' = None \<or> (\<exists>s. b ''name'' = Some (JStr s) \<and> n = Some (trim L s)))
           \<and> (a = None \<and> b ''age'' = None \<or> (\<exists>q. b ''age'' = Some (JNum q) \<and> a = Some q))"
proof -
  obtain ni na nv where n: "parse_name L (b ''name'') = (ni, na, nv)"
    by (cases "parse_name L (b ''name'')") auto
  obtain ai aa av where a: "parse_age (b ''age'') = (ai, aa, av)"
    by (cases "parse_age (b ''age'')") auto
  from assms n a have vb: "vb = parsedBody nv av" and ni: "ni = []" and ai: "ai = []"
    by (auto simp: updateUserSchema_def Let_def split: if_splits)
  from n ni have 1: "nv = None \<and> b ''name'' = None \<or> (\<exists>s. b ''name'' = Some (JStr s) \<and> nv = Some (trim L s))"
    by (auto simp: parse_name_def split: option.splits jval.splits)
  from a ai have 2: "av = None \<and> b ''age'' = None \<or> (\<exists>q. b ''age'' = Some (JNum q) \<and> av = Some q)"
    by (auto simp: parse_age_def split: option.splits jval.splits)
  from vb 1 2 show ?thesis by blast
qed

lemma updateUserSchema_strips:
  "updateUserSchema L b = Inr vb \<Longrightarrow> k \<noteq> ''name'' \<Longrightarrow> k \<noteq> ''age'' \<Longrightarrow> vb k = None"
  using updateUserSchema_parsed [of L b vb] by (auto simp: parsedBody_keys)

lemma validateRequest_body:
  "validateRequest L req = Inr req' \<Longrightarrow>
     updateUserSchema L (body req) = Inr (body req') \<and> req' = req\<lparr>body := body req'\<rparr>"
  by (auto simp: validateRequest_def split: sum.splits)

lemma set_name_frame:
  "set_name L v = Inr f \<Longrightarrow>
     doc_id (f d) = doc_id d \<and> email (f d) = email d \<and> password (f d) = password d \<and>
     passwordResetToken (f d) = passwordResetToken d \<and>
     passwordResetExpires (f d) = passwordResetExpires d"
  by (auto simp: set_name_def andThen_def split: option.splits sum.splits)

lemma set_age_frame:
  "set_age L v = Inr f \<Longrightarrow>
     doc_id (f d) = doc_id d \<and> email (f d) = email d \<and> password (f d) = password d \<and>
     passwordResetToken (f d) = passwordResetToken d \<and>
     passwordResetExpires (f d) = passwordResetExpires d"
  by (auto simp: set_age_def andThen_def split: option.splits sum.splits)

lemma cast_update_name_age:
  assumes keys: "u ''email'' = None" "u ''password'' = None" "u ''passwordResetToken'' = None"
      "u ''passwordResetExpires'' = None"
    and c: "cast_update L u = Inr f"
  shows "\<exists>f1 f4. set_name L (u ''name'') = Inr f1 \<and> set_age L (u ''age'') = Inr f4
           \<and> f = (\<lambda>d. f4 (f1 d))"
proof -
  from c obtain f1 where f1: "set_name L (u ''name'') = Inr f1"
    by (cases "set_name L (u ''name'')") (auto simp: cast_update_def andThen_def)
  from c f1 keys obtain f4 where f4: "set_age L (u ''age'') = Inr f4"
    by (cases "set_age L (u ''age'')")
       (auto simp: cast_update_def andThen_def set_email_def set_password_def)
  from c f1 f4 keys have "f = (\<lambda>d. f4 (f1 d))"
    by (auto simp: cast_update_def andThen_def set_email_def set_password_def
          set_passwordResetToken_def set_passwordResetExpires_def)
  with f1 f4 show ?thesis by blast
qed

lemma cast_update_frame:
  assumes keys: "\<forall>k. k \<noteq> ''name'' \<and> k \<noteq> ''age'' \<longrightarrow> u k = None"
    and c: "cast_update L u = Inr f"
  shows "doc_id (f d) = doc_id d \<and> email (f d) = email d \<and> password (f d) = password d \<and>
     passwordResetToken (f d) = passwordResetToken d \<and>
     passwordResetExpires (f d) = passwordResetExpires d"
proof -
  from keys have k: "u ''email'' = None" "u ''password'' = None" "u ''passwordResetToken'' = None"
      "u ''passwordResetExpires'' = None"
    by simp_all
  from cast_update_name_age [OF k c] obtain f1 f4 where
    f: "set_name L (u ''name'') = Inr f1" "set_age L (u ''age'') = Inr f4" "f = (\<lambda>d. f4 (f1 d))"
    by blast
  show ?thesis
    using set_name_frame [OF f(1), of d] set_age_frame [OF f(2), of "f1 d"] f(3) by simp
qed

lemma updateUser_store:
  "snd (updateUser L db i u) = db \<or>
   (\<exists>oid f. cast_update L u = Inr f \<and> snd (updateUser L db i u) = updateOne oid f db)"
  by (auto simp: updateUser_def Let_def rethrow_def split: option.splits sum.splits if_splits)

lemma updateUser_frame:
  assumes keys: "\<forall>k. k \<noteq> ''name'' \<and> k \<noteq> ''age'' \<longrightarrow> u k = None"
  shows "map doc_id (snd (updateUser L db i u)) = map doc_id db
       \<and> map email (snd (updateUser L db i u)) = map email db
       \<and> map password (snd (updateUser L db i u)) = map password db
       \<and> map passwordResetToken (snd (updateUser L db i u)) = map passwordResetToken db
       \<and> map passwordResetExpires (snd (updateUser L db i u)) = map passwordResetExpires db"
proof -
  from updateUser_store [of L db i u] show ?thesis
  proof
    assume "snd (updateUser L db i u) = db"
    then show ?thesis by simp
  next
    assume "\<exists>oid f. cast_update L u = Inr f \<and> snd (updateUser L db i u) = updateOne oid f db"
    then obtain oid f where f: "cast_update L u = Inr f"
      and s: "snd (updateUser L db i u) = updateOne oid f db" by blast
    note fr = cast_update_frame [OF keys f]
    show ?thesis
      unfolding s using fr by (simp add: map_updateOne)
  qed
qed

lemma updateUser_validated_frame:
  assumes "validateRequest L req = Inr req'"
  shows "map doc_id (snd (updateUser L db i (body req'))) = map doc_id db
       \<and> map email (snd (updateUser L db i (body req'))) = map email db
       \<and> map password (snd (updateUser L db i (body req'))) = map password db
       \<and> map passwordResetToken (snd (updateUser L db i (body req'))) = map passwordResetToken db
       \<and> map passwordResetExpires (snd (updateUser L db i (body req'))) = map passwordResetExpires db"
proof -
  from validateRequest_body [OF assms] have "updateUserSchema L (body req) = Inr (body req')"
    by simp
  then have "\<forall>k. k \<noteq> ''name'' \<and> k \<noteq> ''age'' \<longrightarrow> body req' k = None"
    using updateUserSchema_strips by blast
  then show ?thesis by (rule updateUser_frame)
qed
lemma updateUser_cast:
  "castObjectId i = None \<Longrightarrow>
     updateUser L db i u = (Inl (ApiError ''Failed to update user'' 500), db)"
  by (simp add: updateUser_def rethrow_def)

lemma updateUser_missing:
  "castObjectId i = Some oid \<Longrightarrow> cast_update L u = Inr f \<Longrightarrow> \<forall>d \<in> set db. doc_id d \<noteq> oid \<Longrightarrow>
     updateUser L db i u = (Inl (ApiError ''User not found'' 404), db)"
  using byId_None [of db oid] by (simp add: updateUser_def)

lemma updateUser_found:
  "castObjectId i = Some oid \<Longrightarrow> cast_update L u = Inr f \<Longrightarrow> byId db oid = Some d \<Longrightarrow>
   email (f d) = email d \<Longrightarrow>
     updateUser L db i u = (Inr (toJSON (f d)), updateOne oid f db)"
  by (simp add: updateUser_def)

lemma cast_update_parsedBody:
  assumes "trim L n \<noteq> []"
  shows "cast_update L (parsedBody (Some n) (Some a)) = Inr (\<lambda>d. d\<lparr>name := trim L n, age := a\<rparr>)"
  using assms
  by (simp add: cast_update_def parsedBody_def andThen_def set_name_def set_email_def
        set_password_def set_age_def set_passwordResetToken_def set_passwordResetExpires_def
        castString_def castNumber_def requiredString_def requiredNumber_def)

lemma cast_update_email:
  assumes "emailSetter L e \<noteq> []"
  shows "cast_update L [''email'' \<mapsto> JStr e] = Inr (\<lambda>d. d\<lparr>email := emailSetter L e\<rparr>)"
  using assms
  by (simp add: cast_update_def andThen_def set_name_def set_email_def
        set_password_def set_age_def set_passwordResetToken_def set_passwordResetExpires_def
        castString_def requiredString_def)

lemma putUser_frame:
  "map doc_id (snd (putUser L E now db req)) = map doc_id db
   \<and> map email (snd (putUser L E now db req)) = map email db
   \<and> map password (snd (putUser L E now db req)) = map password db
   \<and> map passwordResetToken (snd (putUser L E now db req)) = map passwordResetToken db
   \<and> map passwordResetExpires (snd (putUser L E now db req)) = map passwordResetExpires db"
proof -
  have "snd (putUser L E now db req) = db \<or>
        (\<exists>r r' i. validateRequest L r = Inr r' \<and>
                  snd (putUser L E now db req) = snd (updateUser L db i (body r')))"
    by (auto simp: putUser_def updateUser_controller_def Let_def
          split: sum.splits option.splits if_splits)
  then show ?thesis
  proof
    assume "snd (putUser L E now db req) = db"
    then show ?thesis by simp
  next
    assume "\<exists>r r' i. validateRequest L r = Inr r' \<and>
                  snd (putUser L E now db req) = snd (updateUser L db i (body r'))"
    then obtain r r' i where v: "validateRequest L r = Inr r'"
      and s: "snd (putUser L E now db req) = snd (updateUser L db i (body r'))" by blast
    show ?thesis
      unfolding s by (rule updateUser_validated_frame [OF v])
  qed
qed

subsection \<open>Store invariants\<close>

text \<open>
  The theorems below assume of the store what the schema and the driver maintain: the
  ids are distinct.  The operations keep that: only registration adds a document, with the
  email as the setters leave it and, for a fresh id, a new id; the others rewrite fields
  of one document and touch neither id nor email.
\<close>

lemma save_new_result:
  "save_new L E db d = Inr (saved, db') \<Longrightarrow>
     db' = db @ [saved] \<and> doc_id saved = doc_id d \<and> email saved = email d"
  by (auto simp: save_new_def Let_def split: if_splits sum.splits)

lemma registerUser_store:
  "snd (registerUser L E now oid db ud) = db \<or>
   (\<exists>saved. snd (registerUser L E now oid db ud) = db @ [saved] \<and> doc_id saved = oid \<and>
      email saved = emailSetter L (reg_email ud))"
proof (cases "findOne_email L db (reg_email ud)")
  case (Some a)
  then show ?thesis by (simp add: registerUser_def)
next
  case None
  show ?thesis
  proof (cases "save_new L E db (new_User L oid ud)")
    case (Inl e)
    with None show ?thesis by (simp add: registerUser_def)
  next
    case (Inr r)
    obtain saved db' where r: "r = (saved, db')" by (cases r)
    from save_new_result [of L E db "new_User L oid ud" saved db'] Inr r
    have "db' = db @ [saved]" "doc_id saved = oid" "email saved = emailSetter L (reg_email ud)"
      by (simp_all add: new_User_def)
    with None Inr r show ?thesis
      by (cases "generateToken L E now (doc_id saved, email saved)")
         (simp_all add: registerUser_def)
  qed
qed

lemma registerUser_keeps_distinct_ids:
  assumes "distinct (map doc_id db)" and "oid \<notin> doc_id ` set db"
  shows "distinct (map doc_id (snd (registerUser L E now oid db ud)))"
  using registerUser_store [of L E now oid db ud] assms by auto

lemma changePassword_keeps:
  "map doc_id (snd (changePassword L E db i pd)) = map doc_id db"
  "map email (snd (changePassword L E db i pd)) = map email db"
  by (simp_all add: changePassword_def save_password_def map_updateOne
        split: option.splits sum.splits bool.splits if_splits)

lemma requestPasswordReset_keeps:
  "map doc_id (snd (requestPasswordReset L now db e)) = map doc_id db"
  "map email (snd (requestPasswordReset L now db e)) = map email db"
  by (simp_all add: requestPasswordReset_def Let_def map_updateOne split: option.splits)

lemma resetPassword_keeps:
  "map doc_id (snd (resetPassword L E now db rd)) = map doc_id db"
  "map email (snd (resetPassword L E now db rd)) = map email db"
  by (simp_all add: resetPassword_def save_password_def map_updateOne
        split: option.splits sum.splits if_splits)

subsection \<open>Sample data, evaluated\<close>

lemma sample_emails:
  "emailSetter sample_lib ''jane@example.com'' = ''jane@example.com''"
  "emailSetter sample_lib ''nobody@example.com'' = ''nobody@example.com''"
  "emailSetter sample_lib ''Jane@Example.COM'' = ''jane@example.com''"
  "emailSetter sample_lib ''bob@example.com'' = ''bob@example.com''"
  "emailSetter sample_lib '' jane@example.com'' = ''jane@example.com''"
  "toLowerCase sample_lib ''jane@example.com'' = ''jane@example.com''"
  "toLowerCase sample_lib ''bob@example.com'' = ''bob@example.com''"
  "toLowerCase sample_lib ''Jane@Example.COM'' = ''jane@example.com''"
  "toLowerCase sample_lib ''nobody@example.com'' = ''nobody@example.com''"
  "toLowerCase sample_lib '' jane@example.com'' = '' jane@example.com''"
  "trim sample_lib ''Jane@Example.COM'' = ''Jane@Example.COM''"
  "trim sample_lib ''nobody@example.com'' = ''nobody@example.com''"
  "trim sample_lib ''No Body'' = ''No Body''"
  "trim sample_lib ''Jane Doe'' = ''Jane Doe''"
  by code_simp+


lemma sample_ids:
  "castObjectId ''64b0c0ffee0000000000000a'' = Some ''64b0c0ffee0000000000000a''"
  "castObjectId ''64b0c0ffee0000000000000b'' = Some ''64b0c0ffee0000000000000b''"
  "castObjectId ''64b0c0ffee0000000000000c'' = Some ''64b0c0ffee0000000000000c''"
  "castObjectId ''64B0C0FFEE0000000000000A'' = Some ''64b0c0ffee0000000000000a''"
  "castObjectId ''not-an-id'' = None"
  by code_simp+

lemma sample_lib_simps:
  "bcrypt_hash sample_lib pw r = Some (''$2b$12$'' @ pw)"
  "bcrypt_compare sample_lib pw h = Some (h = ''$2b$12$'' @ pw)"
  "timespan_ms sample_lib ''7d'' = Some 604800000"
  "query_rejected sample_lib = False"
  "jws_seal sample_lib jane_claims sample_secret = ''jane.token''"
  "jws_unseal sample_lib ''jane.token'' sample_secret = Inr jane_claims"
  "jws_unseal sample_lib ''bob.token'' sample_secret = Inr bob_claims"
  "jws_unseal sample_lib ''noid.token'' sample_secret = Inr noid_claims"
  "jws_unseal sample_lib ''garbage'' sample_secret = Inl ''jwt malformed''"
  by (simp_all add: sample_lib_def)

lemma sample_lib_strings:
  "trim sample_lib = asciiTrim"
  "toLowerCase sample_lib = asciiLower"
  "isSpace sample_lib = asciiSpace"
  by (simp_all add: sample_lib_def)

lemma sample_secrets:
  "or_else (process_env_JWT_SECRET sample_env) (JWT_SECRET sample_env) = sample_secret"
  "or_else (process_env_JWT_EXPIRES_IN sample_env)
     (if JWT_EXPIRES_IN sample_env = [] then ''7d'' else JWT_EXPIRES_IN sample_env) = ''7d''"
  "sample_secret \<noteq> []"
  "BCRYPT_ROUND sample_env = 12"
  by (simp_all add: sample_env_def or_else_def sample_secret_def)

section \<open>Verified properties\<close>

text \<open>
  C7.  Self-access rule.  A request without authenticated context fails with status 401;
  with a context but without a resource id (missing, or empty, which the source treats
  alike) it fails with status 400; with a context whose id differs from the resource id it
  fails with status 403; and the request is passed on, unchanged, exactly when the context's
  id equals the resource id that is present.
\<close>

theorem requireSelfAccess_rule:
  "(req_user req = None \<longrightarrow>
      requireSelfAccess req = Inl (ApiError ''You must be logged in to access this resource.'' 401))
   \<and> (req_user req = Some u \<and> (params_id req = None \<or> params_id req = Some []) \<longrightarrow>
      requireSelfAccess req = Inl (ApiError ''Resource ID is required.'' 400))
   \<and> (req_user req = Some u \<and> params_id req = Some r \<and> r \<noteq> [] \<and> user_id u \<noteq> r \<longrightarrow>
      requireSelfAccess req = Inl (ApiError ''You can only access your own resources.'' 403))
   \<and> ((\<exists>req'. requireSelfAccess req = Inr req') \<longleftrightarrow>
        (\<exists>c. req_user req = Some c \<and> params_id req = Some (user_id c) \<and> user_id c \<noteq> []))
   \<and> (\<forall>req'. requireSelfAccess req = Inr req' \<longrightarrow> req' = req)"
  by (auto simp: requireSelfAccess_def split: option.splits if_splits)

theorem requireSelfAccess_rule_witness:
  "requireSelfAccess \<lparr>authorization = None, params_id = Some ''B'', body = Map.empty,
       req_user = Some \<lparr>user_id = ''A'', user_email = ''a@example.com''\<rparr>\<rparr>
     = Inl (ApiError ''You can only access your own resources.'' 403)
   \<and> (\<exists>req'. requireSelfAccess \<lparr>authorization = None, params_id = Some ''A'', body = Map.empty,
       req_user = Some \<lparr>user_id = ''A'', user_email = ''a@example.com''\<rparr>\<rparr> = Inr req')
   \<and> requireSelfAccess \<lparr>authorization = None, params_id = None, body = Map.empty,
       req_user = Some \<lparr>user_id = ''A'', user_email = ''a@example.com''\<rparr>\<rparr>
     = Inl (ApiError ''Resource ID is required.'' 400)
   \<and> requireSelfAccess \<lparr>authorization = None, params_id = Some ''A'', body = Map.empty, req_user = None\<rparr>
     = Inl (ApiError ''You must be logged in to access this resource.'' 401)"
  using
    requireSelfAccess_rule [of "\<lparr>authorization = None, params_id = Some ''B'', body = Map.empty,
       req_user = Some \<lparr>user_id = ''A'', user_email = ''a@example.com''\<rparr>\<rparr>"
       "\<lparr>user_id = ''A'', user_email = ''a@example.com''\<rparr>" "''B''"]
    requireSelfAccess_rule [of "\<lparr>authorization = None, params_id = Some ''A'', body = Map.empty,
       req_user = Some \<lparr>user_id = ''A'', user_email = ''a@example.com''\<rparr>\<rparr>"
       "\<lparr>user_id = ''A'', user_email = ''a@example.com''\<rparr>" "''A''"]
    requireSelfAccess_rule [of "\<lparr>authorization = None, params_id = None, body = Map.empty,
       req_user = Some \<lparr>user_id = ''A'', user_email = ''a@example.com''\<rparr>\<rparr>"
       "\<lparr>user_id = ''A'', user_email = ''a@example.com''\<rparr>" "''A''"]
    requireSelfAccess_rule [of "\<lparr>authorization = None, params_id = Some ''A'', body = Map.empty, req_user = None\<rparr>"
       "\<lparr>user_id = ''A'', user_email = ''a@example.com''\<rparr>" "''A''"]
  by simp

text \<open>
  C2.  Login.  When no stored user has the given email (as the store compares it), and
  when the user found has a password hash that the given password does not verify against,
  \<^verbatim>\<open>loginUser\<close> fails with the same error: status 401 and the message
  \<^verbatim>\<open>Invalid login credentials\<close>.
\<close>

theorem loginUser_unauthorized:
  "((\<forall>u \<in> set db. email u \<noteq> emailSetter L (cred_email c)) \<longrightarrow>
      loginUser L E now db c = Inl (ApiError ''Invalid login credentials'' 401))
   \<and> (findOne_email L db (cred_email c) = Some u \<and>
        bcrypt_compare L (cred_password c) (password u) = Some False \<longrightarrow>
      loginUser L E now db c = Inl (ApiError ''Invalid login credentials'' 401))"
proof -
  have "loginUser L E now db c = Inl (ApiError ''Invalid login credentials'' 401)"
    if "\<forall>u \<in> set db. email u \<noteq> emailSetter L (cred_email c)"
  proof -
    from that have "findOne_email L db (cred_email c) = None"
      by (simp add: findOne_email_None)
    then show ?thesis by (simp add: loginUser_def rethrow_def)
  qed
  moreover have "loginUser L E now db c = Inl (ApiError ''Invalid login credentials'' 401)"
    if "findOne_email L db (cred_email c) = Some u"
      and "bcrypt_compare L (cred_password c) (password u) = Some False"
    using that by (simp add: loginUser_def rethrow_def comparePassword_def)
  ultimately show ?thesis by blast
qed

theorem loginUser_unauthorized_witness:
  "loginUser sample_lib sample_env 1700000000000 sample_db
       \<lparr>cred_email = ''nobody@example.com'', cred_password = ''secret1''\<rparr>
     = Inl (ApiError ''Invalid login credentials'' 401)
   \<and> loginUser sample_lib sample_env 1700000000000 sample_db
       \<lparr>cred_email = ''jane@example.com'', cred_password = ''wrong''\<rparr>
     = Inl (ApiError ''Invalid login credentials'' 401)"
proof -
  have a: "\<forall>u \<in> set sample_db.
             email u \<noteq> emailSetter sample_lib (cred_email \<lparr>cred_email = ''nobody@example.com'',
                                                cred_password = ''secret1''\<rparr>)"
    by (simp add: sample_db_def jane_def sample_emails)
  have b: "findOne_email sample_lib sample_db
             (cred_email \<lparr>cred_email = ''jane@example.com'', cred_password = ''wrong''\<rparr>) = Some jane
           \<and> bcrypt_compare sample_lib
               (cred_password \<lparr>cred_email = ''jane@example.com'', cred_password = ''wrong''\<rparr>)
               (password jane) = Some False"
    by (simp add: findOne_email_def sample_db_def jane_def sample_emails sample_lib_simps)
  show ?thesis
    using a b
      loginUser_unauthorized [where db = sample_db and L = sample_lib and E = sample_env
        and now = 1700000000000
        and c = "\<lparr>cred_email = ''nobody@example.com'', cred_password = ''secret1''\<rparr>"]
      loginUser_unauthorized [where db = sample_db and L = sample_lib and E = sample_env
        and now = 1700000000000 and u = jane
        and c = "\<lparr>cred_email = ''jane@example.com'', cred_password = ''wrong''\<rparr>"]
    by blast
qed










text \<open>
  C5 (as amended).  Registration.  The store compares the email after the setters of the
  schema, which trim it and put it in lower case.  If a stored user has the email that
  the setters give, the call fails with status 409 and the store is as before.
  Otherwise, for a name, an email and a password that are not empty after the setters,
  a hasher that returns and a usable token configuration, the user is appended to the
  store with the hash in place of the password; the result carries the JSON view of that
  user, which has no password key, and the token that \<^verbatim>\<open>generateToken\<close> issues for the
  new id and the stored email; and registering again with an email that the setters map
  to the same string fails with status 409.  For an email that is trimmed and a store
  whose emails are in lower case, the stored email is the one the setters give exactly
  when the two are equal up to case.
\<close>

theorem registerUser_amended:
  "((\<exists>u \<in> set db. email u = emailSetter L (reg_email ud)) \<longrightarrow>
      registerUser L E now oid db ud = (Inl (ApiError ''Email already registered'' 409), db))
   \<and> ((\<forall>u \<in> set db. email u \<noteq> emailSetter L (reg_email ud)) \<and>
       trim L (reg_name ud) \<noteq> [] \<and> emailSetter L (reg_email ud) \<noteq> [] \<and> reg_password ud \<noteq> [] \<and>
       bcrypt_hash L (reg_password ud) (BCRYPT_ROUND E) = Some h \<and>
       or_else (process_env_JWT_SECRET E) (JWT_SECRET E) \<noteq> [] \<and>
       timespan_ms L (or_else (process_env_JWT_EXPIRES_IN E)
            (if JWT_EXPIRES_IN E = [] then ''7d'' else JWT_EXPIRES_IN E)) = Some ms \<longrightarrow>
        registerUser L E now oid db ud =
           (Inr \<lparr>success = True, message = ''User registered successfully'',
                 data_user = Some (toJSON ((new_User L oid ud)\<lparr>password := h\<rparr>)),
                 data_token =
                   Some (jws_seal L
                          \<lparr>jwt_id = Some oid, jwt_email = Some (emailSetter L (reg_email ud)),
                           iat = Some (now div 1000), exp = Some (now div 1000 + ms div 1000)\<rparr>
                          (or_else (process_env_JWT_SECRET E) (JWT_SECRET E))),
                 resetToken = None\<rparr>,
            db @ [(new_User L oid ud)\<lparr>password := h\<rparr>])
        \<and> generateToken L E now (oid, emailSetter L (reg_email ud)) =
             Inr (jws_seal L
                          \<lparr>jwt_id = Some oid, jwt_email = Some (emailSetter L (reg_email ud)),
                           iat = Some (now div 1000), exp = Some (now div 1000 + ms div 1000)\<rparr>
                          (or_else (process_env_JWT_SECRET E) (JWT_SECRET E)))
        \<and> doc_id ((new_User L oid ud)\<lparr>password := h\<rparr>) = oid
        \<and> email ((new_User L oid ud)\<lparr>password := h\<rparr>) = emailSetter L (reg_email ud)
        \<and> password ((new_User L oid ud)\<lparr>password := h\<rparr>) = h
        \<and> map_of (toJSON ((new_User L oid ud)\<lparr>password := h\<rparr>)) ''password'' = None
        \<and> map_of (toJSON ((new_User L oid ud)\<lparr>password := h\<rparr>)) ''email''
            = Some (JStr (emailSetter L (reg_email ud)))
        \<and> (\<forall>now' oid' ud'.
              emailSetter L (reg_email ud') = emailSetter L (reg_email ud) \<longrightarrow>
              registerUser L E now' oid' (snd (registerUser L E now oid db ud)) ud'
                = (Inl (ApiError ''Email already registered'' 409),
                   snd (registerUser L E now oid db ud))))
   \<and> ((\<forall>u \<in> set db. toLowerCase L (email u) = email u) \<and> trim L (reg_email ud) = reg_email ud \<longrightarrow>
        ((\<exists>u \<in> set db. email u = emailSetter L (reg_email ud)) \<longleftrightarrow>
         (\<exists>u \<in> set db. toLowerCase L (email u) = toLowerCase L (reg_email ud))))"
proof -
  have 1: "(\<exists>u \<in> set db. email u = emailSetter L (reg_email ud)) \<longrightarrow>
      registerUser L E now oid db ud = (Inl (ApiError ''Email already registered'' 409), db)"
    using registerUser_conflict [of db L ud E now oid] by blast
  have 3: "(\<forall>u \<in> set db. toLowerCase L (email u) = email u) \<and> trim L (reg_email ud) = reg_email ud \<longrightarrow>
        ((\<exists>u \<in> set db. email u = emailSetter L (reg_email ud)) \<longleftrightarrow>
         (\<exists>u \<in> set db. toLowerCase L (email u) = toLowerCase L (reg_email ud)))"
    by (auto simp: emailSetter_def)
  have 2: "registerUser L E now oid db ud =
           (Inr \<lparr>success = True, message = ''User registered successfully'',
                 data_user = Some (toJSON ((new_User L oid ud)\<lparr>password := h\<rparr>)),
                 data_token =
                   Some (jws_seal L
                          \<lparr>jwt_id = Some oid, jwt_email = Some (emailSetter L (reg_email ud)),
                           iat = Some (now div 1000), exp = Some (now div 1000 + ms div 1000)\<rparr>
                          (or_else (process_env_JWT_SECRET E) (JWT_SECRET E))),
                 resetToken = None\<rparr>,
            db @ [(new_User L oid ud)\<lparr>password := h\<rparr>])
        \<and> generateToken L E now (oid, emailSetter L (reg_email ud)) =
             Inr (jws_seal L
                          \<lparr>jwt_id = Some oid, jwt_email = Some (emailSetter L (reg_email ud)),
                           iat = Some (now div 1000), exp = Some (now div 1000 + ms div 1000)\<rparr>
                          (or_else (process_env_JWT_SECRET E) (JWT_SECRET E)))
        \<and> doc_id ((new_User L oid ud)\<lparr>password := h\<rparr>) = oid
        \<and> email ((new_User L oid ud)\<lparr>password := h\<rparr>) = emailSetter L (reg_email ud)
        \<and> password ((new_User L oid ud)\<lparr>password := h\<rparr>) = h
        \<and> map_of (toJSON ((new_User L oid ud)\<lparr>password := h\<rparr>)) ''password'' = None
        \<and> map_of (toJSON ((new_User L oid ud)\<lparr>password := h\<rparr>)) ''email''
            = Some (JStr (emailSetter L (reg_email ud)))
        \<and> (\<forall>now' oid' ud'.
              emailSetter L (reg_email ud') = emailSetter L (reg_email ud) \<longrightarrow>
              registerUser L E now' oid' (snd (registerUser L E now oid db ud)) ud'
                = (Inl (ApiError ''Email already registered'' 409),
                   snd (registerUser L E now oid db ud)))"
    if none: "\<forall>u \<in> set db. email u \<noteq> emailSetter L (reg_email ud)"
      and req: "trim L (reg_name ud) \<noteq> []" "emailSetter L (reg_email ud) \<noteq> []" "reg_password ud \<noteq> []"
      and h: "bcrypt_hash L (reg_password ud) (BCRYPT_ROUND E) = Some h"
      and sec: "or_else (process_env_JWT_SECRET E) (JWT_SECRET E) \<noteq> []"
      and ms: "timespan_ms L (or_else (process_env_JWT_EXPIRES_IN E)
            (if JWT_EXPIRES_IN E = [] then ''7d'' else JWT_EXPIRES_IN E)) = Some ms"
  proof -
    note r = registerUser_creates [OF none req h sec ms, of now oid]
    have g: "generateToken L E now (oid, emailSetter L (reg_email ud)) =
             Inr (jws_seal L
                          \<lparr>jwt_id = Some oid, jwt_email = Some (emailSetter L (reg_email ud)),
                           iat = Some (now div 1000), exp = Some (now div 1000 + ms div 1000)\<rparr>
                          (or_else (process_env_JWT_SECRET E) (JWT_SECRET E)))"
      using generateToken_returns [OF sec ms, of now "(oid, emailSetter L (reg_email ud))"] by simp
    have f: "doc_id ((new_User L oid ud)\<lparr>password := h\<rparr>) = oid"
        "email ((new_User L oid ud)\<lparr>password := h\<rparr>) = emailSetter L (reg_email ud)"
        "password ((new_User L oid ud)\<lparr>password := h\<rparr>) = h"
      by (simp_all add: new_User_def)
    have j: "map_of (toJSON ((new_User L oid ud)\<lparr>password := h\<rparr>)) ''email''
            = Some (JStr (emailSetter L (reg_email ud)))"
      by (simp add: toJSON_def toObject_def new_User_def)
    have mem: "(new_User L oid ud)\<lparr>password := h\<rparr> \<in> set (snd (registerUser L E now oid db ud))"
      by (simp add: r)
    have again: "registerUser L E now' oid' (snd (registerUser L E now oid db ud)) ud'
                = (Inl (ApiError ''Email already registered'' 409),
                   snd (registerUser L E now oid db ud))"
      if "emailSetter L (reg_email ud') = emailSetter L (reg_email ud)" for now' oid' ud'
      by (rule registerUser_again [OF that mem f(2)])
    from r g f j again toJSON_no_password [of "(new_User L oid ud)\<lparr>password := h\<rparr>"]
    show ?thesis by blast
  qed
  from 1 2 3 show ?thesis by blast
qed

theorem registerUser_amended_witness:
  "registerUser sample_lib sample_env 1700000000000 ''64b0c0ffee0000000000000b'' sample_db
       \<lparr>reg_name = ''Jane Roe'', reg_email = ''Jane@Example.COM'', reg_password = ''secret1'',
        reg_age = 30\<rparr>
     = (Inl (ApiError ''Email already registered'' 409), sample_db)
   \<and> registerUser sample_lib sample_env 1700000000000 ''64b0c0ffee0000000000000b'' sample_db
       \<lparr>reg_name = ''Bob Poe'', reg_email = ''bob@example.com'', reg_password = ''secret7'',
        reg_age = 52\<rparr>
     = (Inr \<lparr>success = True, message = ''User registered successfully'',
             data_user = Some [(''name'', JStr ''Bob Poe''), (''email'', JStr ''bob@example.com''),
                               (''age'', JNum 52), (''id'', JStr ''64b0c0ffee0000000000000b'')],
             data_token = Some ''bob.token'', resetToken = None\<rparr>,
        [jane, bob])
   \<and> fst (registerUser sample_lib sample_env 1700000000001 ''64b0c0ffee0000000000000c''
        (snd (registerUser sample_lib sample_env 1700000000000 ''64b0c0ffee0000000000000b'' sample_db
          \<lparr>reg_name = ''Bob Poe'', reg_email = ''bob@example.com'', reg_password = ''secret7'',
           reg_age = 52\<rparr>))
        \<lparr>reg_name = ''Bob Poe'', reg_email = ''BOB@example.com'', reg_password = ''secret8'',
         reg_age = 52\<rparr>)
     = Inl (ApiError ''Email already registered'' 409)"
proof -
  let ?a = "\<lparr>reg_name = ''Jane Roe'', reg_email = ''Jane@Example.COM'', reg_password = ''secret1'',
        reg_age = 30\<rparr>"
  let ?b = "\<lparr>reg_name = ''Bob Poe'', reg_email = ''bob@example.com'', reg_password = ''secret7'',
        reg_age = 52\<rparr>"
  let ?c = "\<lparr>reg_name = ''Bob Poe'', reg_email = ''BOB@example.com'', reg_password = ''secret8'',
         reg_age = 52\<rparr>"
  have up: "emailSetter sample_lib ''BOB@example.com'' = ''bob@example.com''"
    by code_simp
  have nm: "trim sample_lib ''Bob Poe'' = ''Bob Poe''"
    by code_simp
  have ex: "\<exists>u \<in> set sample_db. email u = emailSetter sample_lib (reg_email ?a)"
    by (simp add: sample_db_def jane_def sample_emails)
  have nex: "(\<forall>u \<in> set sample_db. email u \<noteq> emailSetter sample_lib (reg_email ?b)) \<and>
       trim sample_lib (reg_name ?b) \<noteq> [] \<and> emailSetter sample_lib (reg_email ?b) \<noteq> [] \<and>
       reg_password ?b \<noteq> [] \<and>
       bcrypt_hash sample_lib (reg_password ?b) (BCRYPT_ROUND sample_env) = Some ''$2b$12$secret7'' \<and>
       or_else (process_env_JWT_SECRET sample_env) (JWT_SECRET sample_env) \<noteq> [] \<and>
       timespan_ms sample_lib (or_else (process_env_JWT_EXPIRES_IN sample_env)
            (if JWT_EXPIRES_IN sample_env = [] then ''7d'' else JWT_EXPIRES_IN sample_env))
         = Some 604800000"
    by (simp add: sample_db_def jane_def sample_emails nm sample_lib_simps sample_secrets)
  have same: "emailSetter sample_lib (reg_email ?c) = emailSetter sample_lib (reg_email ?b)"
    by (simp add: up sample_emails)
  have nu: "(new_User sample_lib ''64b0c0ffee0000000000000b'' ?b)\<lparr>password := ''$2b$12$secret7''\<rparr> = bob"
    by (simp add: new_User_def sample_emails nm bob_def)
  have js: "toJSON bob
       = [(''name'', JStr ''Bob Poe''), (''email'', JStr ''bob@example.com''),
          (''age'', JNum 52), (''id'', JStr ''64b0c0ffee0000000000000b'')]"
    by (simp add: toJSON_def toObject_def bob_def)
  have tk: "jws_seal sample_lib
              \<lparr>jwt_id = Some ''64b0c0ffee0000000000000b'',
               jwt_email = Some (emailSetter sample_lib (reg_email ?b)),
               iat = Some (1700000000000 div 1000),
               exp = Some (1700000000000 div 1000 + 604800000 div 1000)\<rparr>
              (or_else (process_env_JWT_SECRET sample_env) (JWT_SECRET sample_env)) = ''bob.token''"
  proof -
    have sb: "jws_seal sample_lib bob_claims sample_secret = ''bob.token''"
      by (simp add: sample_lib_def bob_claims_def jane_claims_def)
    have "\<lparr>jwt_id = Some ''64b0c0ffee0000000000000b'',
               jwt_email = Some (emailSetter sample_lib (reg_email ?b)),
               iat = Some (1700000000000 div 1000),
               exp = Some (1700000000000 div 1000 + 604800000 div 1000)\<rparr> = bob_claims"
      by (simp add: sample_emails bob_claims_def)
    then show ?thesis by (simp only: sample_secrets sb)
  qed
  from registerUser_amended [where L = sample_lib and E = sample_env and db = sample_db
      and ud = ?a and now = 1700000000000 and oid = "''64b0c0ffee0000000000000b''"] ex
  have 1: "registerUser sample_lib sample_env 1700000000000 ''64b0c0ffee0000000000000b'' sample_db ?a
     = (Inl (ApiError ''Email already registered'' 409), sample_db)"
    by blast
  note r = registerUser_amended [where L = sample_lib and E = sample_env and db = sample_db
      and ud = ?b and h = "''$2b$12$secret7''" and ms = 604800000
      and now = 1700000000000 and oid = "''64b0c0ffee0000000000000b''"]
  from r nex
  have 2: "registerUser sample_lib sample_env 1700000000000 ''64b0c0ffee0000000000000b''
        sample_db ?b =
           (Inr \<lparr>success = True, message = ''User registered successfully'',
                 data_user = Some (toJSON ((new_User sample_lib ''64b0c0ffee0000000000000b'' ?b)
                                      \<lparr>password := ''$2b$12$secret7''\<rparr>)),
                 data_token =
                   Some (jws_seal sample_lib
                          \<lparr>jwt_id = Some ''64b0c0ffee0000000000000b'',
                           jwt_email = Some (emailSetter sample_lib (reg_email ?b)),
                           iat = Some (1700000000000 div 1000),
                           exp = Some (1700000000000 div 1000 + 604800000 div 1000)\<rparr>
                          (or_else (process_env_JWT_SECRET sample_env) (JWT_SECRET sample_env))),
                 resetToken = None\<rparr>,
            sample_db @ [(new_User sample_lib ''64b0c0ffee0000000000000b'' ?b)
                           \<lparr>password := ''$2b$12$secret7''\<rparr>])"
    by blast
  from r nex same
  have 3: "registerUser sample_lib sample_env 1700000000001 ''64b0c0ffee0000000000000c''
             (snd (registerUser sample_lib sample_env 1700000000000 ''64b0c0ffee0000000000000b''
                     sample_db ?b)) ?c
           = (Inl (ApiError ''Email already registered'' 409),
              snd (registerUser sample_lib sample_env 1700000000000 ''64b0c0ffee0000000000000b''
                     sample_db ?b))"
    by blast
  have 4: "registerUser sample_lib sample_env 1700000000000 ''64b0c0ffee0000000000000b''
        sample_db ?b =
           (Inr \<lparr>success = True, message = ''User registered successfully'',
                 data_user = Some [(''name'', JStr ''Bob Poe''), (''email'', JStr ''bob@example.com''),
                               (''age'', JNum 52), (''id'', JStr ''64b0c0ffee0000000000000b'')],
                 data_token = Some ''bob.token'', resetToken = None\<rparr>,
            [jane, bob])"
    using 2 unfolding tk nu js by (simp add: sample_db_def)
  from 1 4 3 show ?thesis by simp
qed

text \<open>
  The claim as it stands fails: the email with a leading blank is not the stored email of
  Jane up to case, so that no user with the same email exists, and the call does not
  create a user but fails with status 409.
\<close>

theorem registerUser_counterexample:
  "sample_db = [jane]
   \<and> toLowerCase sample_lib (email jane) \<noteq> toLowerCase sample_lib '' jane@example.com''
   \<and> registerUser sample_lib sample_env 1700000000000 ''64b0c0ffee0000000000000b'' sample_db
       \<lparr>reg_name = ''Jane Doe'', reg_email = '' jane@example.com'', reg_password = ''secret5'',
        reg_age = 30\<rparr>
     = (Inl (ApiError ''Email already registered'' 409), sample_db)"
  by (simp add: registerUser_def findOne_email_def sample_db_def jane_def sample_emails)



text \<open>
  C8.  Authentication middleware.  A request without \<^verbatim>\<open>Authorization\<close> header, with a
  header that does not start with \<^verbatim>\<open>Bearer \<close>, or with nothing after that prefix, is
  rejected by the mandatory variant with status 401.  For a header \<^verbatim>\<open>Bearer \<close> and a
  token: when \<^verbatim>\<open>verifyToken\<close> fails, its error, of status 401, is the rejection; when the
  id or the email claim is empty, the rejection has status 401; when no stored user has
  the email of the claim (as the store compares it), the rejection has status 401; when
  one has it, the first such user's id and email are attached to the request, by both
  variants.  In each of the rejecting cases the optional variant passes the request on as
  it came, with no context attached by it; it never rejects.  The one rejection of the
  mandatory variant that has not status 401 is the 500 of \<^verbatim>\<open>getUserByEmail\<close> when the
  store rejects its query; the optional variant passes the request on there, too.
\<close>

theorem authenticate_optionalAuth:
  "(authorization req = None \<or>
      (\<exists>h. authorization req = Some h \<and> (take 7 h \<noteq> ''Bearer '' \<or> h = ''Bearer '')) \<longrightarrow>
      authenticate L E now db req = Inl (ApiError ''Access token is required. Please log in.'' 401)
      \<and> optionalAuth L E now db req = Inr req)
   \<and> (\<forall>t. authorization req = Some (''Bearer '' @ t) \<and> t \<noteq> [] \<longrightarrow>
        (\<forall>e. verifyToken L E now t = Inl e \<longrightarrow>
           authenticate L E now db req = Inl e \<and> (\<exists>m. e = ApiError m 401)
           \<and> optionalAuth L E now db req = Inr req)
        \<and> (\<forall>c i em. verifyToken L E now t = Inr c \<and> jwt_id c = Some i \<and> jwt_email c = Some em \<longrightarrow>
             (i = [] \<or> em = [] \<longrightarrow>
                authenticate L E now db req
                  = Inl (ApiError ''Invalid token. Please log in again.'' 401)
                \<and> optionalAuth L E now db req = Inr req)
             \<and> (i \<noteq> [] \<and> em \<noteq> [] \<and> query_rejected L \<longrightarrow>
                authenticate L E now db req = Inl (ApiError ''Failed to fetch user'' 500)
                \<and> optionalAuth L E now db req = Inr req)
             \<and> (i \<noteq> [] \<and> em \<noteq> [] \<and> \<not> query_rejected L \<and>
                  (\<forall>u \<in> set db. email u \<noteq> emailSetter L (toLowerCase L em)) \<longrightarrow>
                authenticate L E now db req
                  = Inl (ApiError ''The user belonging to this token no longer exists.'' 401)
                \<and> optionalAuth L E now db req = Inr req)
             \<and> (\<forall>u. i \<noteq> [] \<and> em \<noteq> [] \<and> \<not> query_rejected L \<and>
                  find (\<lambda>d. email d = emailSetter L (toLowerCase L em)) db = Some u \<longrightarrow>
                authenticate L E now db req
                  = Inr (req\<lparr>req_user := Some \<lparr>user_id = doc_id u, user_email = email u\<rparr>\<rparr>)
                \<and> optionalAuth L E now db req
                  = Inr (req\<lparr>req_user := Some \<lparr>user_id = doc_id u, user_email = email u\<rparr>\<rparr>))))
   \<and> (\<exists>r. optionalAuth L E now db req = Inr r)
   \<and> (\<forall>e. authenticate L E now db req = Inl e \<longrightarrow>
        ((\<exists>m. e = ApiError m 401) \<or> (query_rejected L \<and> e = ApiError ''Failed to fetch user'' 500))
        \<and> optionalAuth L E now db req = Inr req)
   \<and> (\<forall>r. authenticate L E now db req = Inr r \<longrightarrow>
        optionalAuth L E now db req = Inr r \<and>
        (\<exists>u \<in> set db. r = req\<lparr>req_user := Some \<lparr>user_id = doc_id u, user_email = email u\<rparr>\<rparr>))"
proof -
  have 1: "authorization req = None \<or>
      (\<exists>h. authorization req = Some h \<and> (take 7 h \<noteq> ''Bearer '' \<or> h = ''Bearer '')) \<longrightarrow>
      authenticate L E now db req = Inl (ApiError ''Access token is required. Please log in.'' 401)
      \<and> optionalAuth L E now db req = Inr req"
  proof
    assume a: "authorization req = None \<or>
      (\<exists>h. authorization req = Some h \<and> (take 7 h \<noteq> ''Bearer '' \<or> h = ''Bearer ''))"
    then have "extractToken req = None \<or> extractToken req = Some []"
      using extractToken_none [of req] extractToken_empty [of req] by blast
    then show "authenticate L E now db req
        = Inl (ApiError ''Access token is required. Please log in.'' 401)
      \<and> optionalAuth L E now db req = Inr req"
      by (rule authenticate_no_credential)
  qed
  have 2: "(\<forall>e. verifyToken L E now t = Inl e \<longrightarrow>
           authenticate L E now db req = Inl e \<and> (\<exists>m. e = ApiError m 401)
           \<and> optionalAuth L E now db req = Inr req)
        \<and> (\<forall>c i em. verifyToken L E now t = Inr c \<and> jwt_id c = Some i \<and> jwt_email c = Some em \<longrightarrow>
             (i = [] \<or> em = [] \<longrightarrow>
                authenticate L E now db req
                  = Inl (ApiError ''Invalid token. Please log in again.'' 401)
                \<and> optionalAuth L E now db req = Inr req)
             \<and> (i \<noteq> [] \<and> em \<noteq> [] \<and> query_rejected L \<longrightarrow>
                authenticate L E now db req = Inl (ApiError ''Failed to fetch user'' 500)
                \<and> optionalAuth L E now db req = Inr req)
             \<and> (i \<noteq> [] \<and> em \<noteq> [] \<and> \<not> query_rejected L \<and>
                  (\<forall>u \<in> set db. email u \<noteq> emailSetter L (toLowerCase L em)) \<longrightarrow>
                authenticate L E now db req
                  = Inl (ApiError ''The user belonging to this token no longer exists.'' 401)
                \<and> optionalAuth L E now db req = Inr req)
             \<and> (\<forall>u. i \<noteq> [] \<and> em \<noteq> [] \<and> \<not> query_rejected L \<and>
                  find (\<lambda>d. email d = emailSetter L (toLowerCase L em)) db = Some u \<longrightarrow>
                authenticate L E now db req
                  = Inr (req\<lparr>req_user := Some \<lparr>user_id = doc_id u, user_email = email u\<rparr>\<rparr>)
                \<and> optionalAuth L E now db req
                  = Inr (req\<lparr>req_user := Some \<lparr>user_id = doc_id u, user_email = email u\<rparr>\<rparr>)))"
    if h: "authorization req = Some (''Bearer '' @ t) \<and> t \<noteq> []" for t
  proof -
    from h have x: "extractToken req = Some t" and t: "t \<noteq> []"
      using extractToken_bearer [of req t] by simp_all
    have a: "\<forall>e. verifyToken L E now t = Inl e \<longrightarrow>
           authenticate L E now db req = Inl e \<and> (\<exists>m. e = ApiError m 401)
           \<and> optionalAuth L E now db req = Inr req"
      using authenticate_bad_token [OF x t] by blast
    have b: "(i = [] \<or> em = [] \<longrightarrow>
                authenticate L E now db req
                  = Inl (ApiError ''Invalid token. Please log in again.'' 401)
                \<and> optionalAuth L E now db req = Inr req)
             \<and> (i \<noteq> [] \<and> em \<noteq> [] \<and> query_rejected L \<longrightarrow>
                authenticate L E now db req = Inl (ApiError ''Failed to fetch user'' 500)
                \<and> optionalAuth L E now db req = Inr req)
             \<and> (i \<noteq> [] \<and> em \<noteq> [] \<and> \<not> query_rejected L \<and>
                  (\<forall>u \<in> set db. email u \<noteq> emailSetter L (toLowerCase L em)) \<longrightarrow>
                authenticate L E now db req
                  = Inl (ApiError ''The user belonging to this token no longer exists.'' 401)
                \<and> optionalAuth L E now db req = Inr req)
             \<and> (\<forall>u. i \<noteq> [] \<and> em \<noteq> [] \<and> \<not> query_rejected L \<and>
                  find (\<lambda>d. email d = emailSetter L (toLowerCase L em)) db = Some u \<longrightarrow>
                authenticate L E now db req
                  = Inr (req\<lparr>req_user := Some \<lparr>user_id = doc_id u, user_email = email u\<rparr>\<rparr>)
                \<and> optionalAuth L E now db req
                  = Inr (req\<lparr>req_user := Some \<lparr>user_id = doc_id u, user_email = email u\<rparr>\<rparr>))"
      if v: "verifyToken L E now t = Inr c" "jwt_id c = Some i" "jwt_email c = Some em" for c i em
      using authenticate_empty_claim [OF x t v, of db]
        authenticate_store_fails [OF x t v, of db]
        authenticate_gone [OF x t v, of db]
        authenticate_ok [OF x t v, of db]
      by blast
    from a b show ?thesis by blast
  qed
  have 3: "\<exists>r. optionalAuth L E now db req = Inr r" by (rule optionalAuth_passes)
  have 4: "\<forall>e. authenticate L E now db req = Inl e \<longrightarrow>
        ((\<exists>m. e = ApiError m 401) \<or> (query_rejected L \<and> e = ApiError ''Failed to fetch user'' 500))
        \<and> optionalAuth L E now db req = Inr req"
    using authenticate_rejects [of L E now db req] by blast
  have 5: "\<forall>r. authenticate L E now db req = Inr r \<longrightarrow>
        optionalAuth L E now db req = Inr r \<and>
        (\<exists>u \<in> set db. r = req\<lparr>req_user := Some \<lparr>user_id = doc_id u, user_email = email u\<rparr>\<rparr>)"
    using authenticate_accepts [of L E now db req] authenticate_attaches [of L E now db req]
    by blast
  from 2 have 6: "\<forall>t. authorization req = Some (''Bearer '' @ t) \<and> t \<noteq> [] \<longrightarrow>
        (\<forall>e. verifyToken L E now t = Inl e \<longrightarrow>
           authenticate L E now db req = Inl e \<and> (\<exists>m. e = ApiError m 401)
           \<and> optionalAuth L E now db req = Inr req)
        \<and> (\<forall>c i em. verifyToken L E now t = Inr c \<and> jwt_id c = Some i \<and> jwt_email c = Some em \<longrightarrow>
             (i = [] \<or> em = [] \<longrightarrow>
                authenticate L E now db req
                  = Inl (ApiError ''Invalid token. Please log in again.'' 401)
                \<and> optionalAuth L E now db req = Inr req)
             \<and> (i \<noteq> [] \<and> em \<noteq> [] \<and> query_rejected L \<longrightarrow>
                authenticate L E now db req = Inl (ApiError ''Failed to fetch user'' 500)
                \<and> optionalAuth L E now db req = Inr req)
             \<and> (i \<noteq> [] \<and> em \<noteq> [] \<and> \<not> query_rejected L \<and>
                  (\<forall>u \<in> set db. email u \<noteq> emailSetter L (toLowerCase L em)) \<longrightarrow>
                authenticate L E now db req
                  = Inl (ApiError ''The user belonging to this token no longer exists.'' 401)
                \<and> optionalAuth L E now db req = Inr req)
             \<and> (\<forall>u. i \<noteq> [] \<and> em \<noteq> [] \<and> \<not> query_rejected L \<and>
                  find (\<lambda>d. email d = emailSetter L (toLowerCase L em)) db = Some u \<longrightarrow>
                authenticate L E now db req
                  = Inr (req\<lparr>req_user := Some \<lparr>user_id = doc_id u, user_email = email u\<rparr>\<rparr>)
                \<and> optionalAuth L E now db req
                  = Inr (req\<lparr>req_user := Some \<lparr>user_id = doc_id u, user_email = email u\<rparr>\<rparr>)))"
    by (intro allI impI)
  show ?thesis
    by (rule conjI [OF 1 conjI [OF 6 conjI [OF 3 conjI [OF 4 5]]]])
qed

theorem authenticate_optionalAuth_witness:
  "authenticate sample_lib sample_env 1700000000000 [jane, bob]
       \<lparr>authorization = None, params_id = None, body = Map.empty, req_user = None\<rparr>
     = Inl (ApiError ''Access token is required. Please log in.'' 401)
   \<and> optionalAuth sample_lib sample_env 1700000000000 [jane, bob]
       \<lparr>authorization = None, params_id = None, body = Map.empty, req_user = None\<rparr>
     = Inr \<lparr>authorization = None, params_id = None, body = Map.empty, req_user = None\<rparr>
   \<and> authenticate sample_lib sample_env 1700000000000 [jane, bob]
       \<lparr>authorization = Some ''Token bob.token'', params_id = None, body = Map.empty,
        req_user = None\<rparr>
     = Inl (ApiError ''Access token is required. Please log in.'' 401)
   \<and> authenticate sample_lib sample_env 1700000000000 [jane, bob]
       \<lparr>authorization = Some ''Bearer garbage'', params_id = None, body = Map.empty,
        req_user = None\<rparr>
     = Inl (ApiError ''Invalid authentication token'' 401)
   \<and> optionalAuth sample_lib sample_env 1700000000000 [jane, bob]
       \<lparr>authorization = Some ''Bearer garbage'', params_id = None, body = Map.empty,
        req_user = None\<rparr>
     = Inr \<lparr>authorization = Some ''Bearer garbage'', params_id = None, body = Map.empty,
           req_user = None\<rparr>
   \<and> authenticate sample_lib sample_env 1700000000000 [jane, bob]
       \<lparr>authorization = Some ''Bearer bob.token'', params_id = None, body = Map.empty,
        req_user = None\<rparr>
     = Inr \<lparr>authorization = Some ''Bearer bob.token'', params_id = None, body = Map.empty,
           req_user = Some \<lparr>user_id = ''64b0c0ffee0000000000000b'',
                            user_email = ''bob@example.com''\<rparr>\<rparr>
   \<and> optionalAuth sample_lib sample_env 1700000000000 [jane, bob]
       \<lparr>authorization = Some ''Bearer bob.token'', params_id = None, body = Map.empty,
        req_user = None\<rparr>
     = Inr \<lparr>authorization = Some ''Bearer bob.token'', params_id = None, body = Map.empty,
           req_user = Some \<lparr>user_id = ''64b0c0ffee0000000000000b'',
                            user_email = ''bob@example.com''\<rparr>\<rparr>
   \<and> authenticate sample_lib sample_env 1700000000000 [jane]
       \<lparr>authorization = Some ''Bearer bob.token'', params_id = None, body = Map.empty,
        req_user = None\<rparr>
     = Inl (ApiError ''The user belonging to this token no longer exists.'' 401)
   \<and> optionalAuth sample_lib sample_env 1700000000000 [jane]
       \<lparr>authorization = Some ''Bearer bob.token'', params_id = None, body = Map.empty,
        req_user = None\<rparr>
     = Inr \<lparr>authorization = Some ''Bearer bob.token'', params_id = None, body = Map.empty,
           req_user = None\<rparr>"
proof -
  let ?r0 = "\<lparr>authorization = None, params_id = None, body = Map.empty, req_user = None\<rparr>"
  let ?rt = "\<lparr>authorization = Some ''Token bob.token'', params_id = None, body = Map.empty,
        req_user = None\<rparr>"
  let ?rg = "\<lparr>authorization = Some ''Bearer garbage'', params_id = None, body = Map.empty,
        req_user = None\<rparr>"
  let ?rb = "\<lparr>authorization = Some ''Bearer bob.token'', params_id = None, body = Map.empty,
        req_user = None\<rparr>"
  have h0: "authorization ?r0 = None"
    by simp
  have ht: "\<exists>h. authorization ?rt = Some h \<and> (take 7 h \<noteq> ''Bearer '' \<or> h = ''Bearer '')"
    by simp
  have hg: "authorization ?rg = Some (''Bearer '' @ ''garbage'') \<and> ''garbage'' \<noteq> []"
    by simp
  have hb: "authorization ?rb = Some (''Bearer '' @ ''bob.token'') \<and> ''bob.token'' \<noteq> []"
    by simp
  have vg: "verifyToken sample_lib sample_env 1700000000000 ''garbage''
              = Inl (ApiError ''Invalid authentication token'' 401)"
    by (simp add: verifyToken_def jwt_verify_def sample_secrets sample_lib_simps Let_def)
  have xb: "exp bob_claims = Some 1700604800"
    by (simp add: bob_claims_def)
  have vb: "verifyToken sample_lib sample_env 1700000000000 ''bob.token'' = Inr bob_claims
            \<and> jwt_id bob_claims = Some ''64b0c0ffee0000000000000b''
            \<and> jwt_email bob_claims = Some ''bob@example.com''"
    by (simp add: verifyToken_def jwt_verify_def sample_secrets sample_lib_simps Let_def xb)
       (simp add: bob_claims_def)
  have ne: "''64b0c0ffee0000000000000b'' \<noteq> [] \<and> ''bob@example.com'' \<noteq> []
            \<and> \<not> query_rejected sample_lib"
    by (simp add: sample_lib_simps)
  have f2: "find (\<lambda>d. email d = emailSetter sample_lib (toLowerCase sample_lib ''bob@example.com''))
              [jane, bob] = Some bob"
    by (simp add: sample_emails jane_def bob_def)
  have f1: "\<forall>u \<in> set [jane].
              email u \<noteq> emailSetter sample_lib (toLowerCase sample_lib ''bob@example.com'')"
    by (simp add: sample_emails jane_def)
  have j: "doc_id bob = ''64b0c0ffee0000000000000b''" "email bob = ''bob@example.com''"
    by (simp_all add: bob_def)
  note t0 = authenticate_optionalAuth [where L = sample_lib and E = sample_env
      and now = 1700000000000 and db = "[jane, bob]" and req = ?r0]
  note tt = authenticate_optionalAuth [where L = sample_lib and E = sample_env
      and now = 1700000000000 and db = "[jane, bob]" and req = ?rt]
  note tg = authenticate_optionalAuth [where L = sample_lib and E = sample_env
      and now = 1700000000000 and db = "[jane, bob]" and req = ?rg]
  note tb = authenticate_optionalAuth [where L = sample_lib and E = sample_env
      and now = 1700000000000 and db = "[jane, bob]" and req = ?rb]
  note t1 = authenticate_optionalAuth [where L = sample_lib and E = sample_env
      and now = 1700000000000 and db = "[jane]" and req = ?rb]
  from t0 h0 have 1: "authenticate sample_lib sample_env 1700000000000 [jane, bob] ?r0
       = Inl (ApiError ''Access token is required. Please log in.'' 401)
     \<and> optionalAuth sample_lib sample_env 1700000000000 [jane, bob] ?r0 = Inr ?r0"
    by blast
  from tt ht have 2: "authenticate sample_lib sample_env 1700000000000 [jane, bob] ?rt
       = Inl (ApiError ''Access token is required. Please log in.'' 401)"
    by blast
  from tg hg vg have 3: "authenticate sample_lib sample_env 1700000000000 [jane, bob] ?rg
       = Inl (ApiError ''Invalid authentication token'' 401)
     \<and> optionalAuth sample_lib sample_env 1700000000000 [jane, bob] ?rg = Inr ?rg"
    by blast
  from tb hb vb ne f2 have 4: "authenticate sample_lib sample_env 1700000000000 [jane, bob] ?rb
       = Inr (?rb\<lparr>req_user := Some \<lparr>user_id = doc_id bob, user_email = email bob\<rparr>\<rparr>)
     \<and> optionalAuth sample_lib sample_env 1700000000000 [jane, bob] ?rb
       = Inr (?rb\<lparr>req_user := Some \<lparr>user_id = doc_id bob, user_email = email bob\<rparr>\<rparr>)"
    by blast
  from t1 hb vb ne f1 have 5: "authenticate sample_lib sample_env 1700000000000 [jane] ?rb
       = Inl (ApiError ''The user belonging to this token no longer exists.'' 401)
     \<and> optionalAuth sample_lib sample_env 1700000000000 [jane] ?rb = Inr ?rb"
    by blast
  from 1 2 3 4 5 j show ?thesis by simp
qed

text \<open>
  C9.  Rate limiting.  The four limiters have the windows and maxima of the source:
  general traffic 15 minutes and 100, authentication attempts 15 minutes and 5 with
  successful requests not counted, password resets 1 hour and 3, account creation 1 hour
  and the maximum it is configured with (100).  For every limiter, whatever its maximum,
  and every client IP: once the count of the running window has reached the maximum, a
  request in that window is rejected with status 429, the rest of the chain does not run
  (the application state is as before), and the count stays at or above the maximum, so
  every further request of the window is rejected too.  Below the maximum the request
  runs and is counted, unless the limiter skips successful requests and the answer's status
  is below 400.  A request with no running window passes.  A request changes neither
  the counts of another limiter nor those of another IP.  Starting without a window, after
  as many counted requests as the maximum, the next request of the window is rejected.
\<close>

theorem rate_limit_buckets:
  "(windowMs generalLimiter = 15 * 60 * 1000 \<and> max_requests generalLimiter = 100
     \<and> \<not> skipSuccessfulRequests generalLimiter
     \<and> windowMs authLimiter = 15 * 60 * 1000 \<and> max_requests authLimiter = 5
     \<and> skipSuccessfulRequests authLimiter
     \<and> windowMs passwordResetLimiter = 60 * 60 * 1000 \<and> max_requests passwordResetLimiter = 3
     \<and> \<not> skipSuccessfulRequests passwordResetLimiter
     \<and> windowMs createAccountLimiter = 60 * 60 * 1000 \<and> max_requests createAccountLimiter = 100
     \<and> \<not> skipSuccessfulRequests createAccountLimiter)
   \<and> (st ip = Some (hits, resetTime) \<and> max_requests opts \<le> hits \<and> now < resetTime \<longrightarrow>
        rateLimit opts now ip handler (st, app)
          = (Inl (ApiError (handler_message opts) 429), st(ip \<mapsto> (hits + 1, resetTime)), app))
   \<and> (S b ip = Some (hits, resetTime) \<and> max_requests (options_of b) \<le> hits \<and>
       now < resetTime \<longrightarrow>
        limited b now ip handler (S, app)
          = (Inl (ApiError (handler_message (options_of b)) 429),
             S(b := (S b)(ip \<mapsto> (hits + 1, resetTime))), app))
   \<and> (S b ip = Some (hits, resetTime) \<and> hits < max_requests (options_of b) \<and>
       now < resetTime \<and> handler app = (status, app') \<longrightarrow>
        limited b now ip handler (S, app)
          = (Inr status,
             if skipSuccessfulRequests (options_of b) \<and> status < 400 then S
             else S(b := (S b)(ip \<mapsto> (hits + 1, resetTime))),
             app'))
   \<and> ((S b ip = None \<or> (\<exists>h r. S b ip = Some (h, r) \<and> r \<le> now)) \<and>
       handler app = (status, app') \<longrightarrow>
        fst (limited b now ip handler (S, app)) = Inr status)
   \<and> (b' \<noteq> b \<longrightarrow> fst (snd (limited b now ip handler (S, app))) b' = S b')
   \<and> (ip' \<noteq> ip \<longrightarrow> fst (snd (limited b now ip handler (S, app))) b ip' = S b ip')
   \<and> (st ip = None \<and> (\<forall>t \<in> set ts. t < t0 + windowMs opts) \<and>
       Suc (length ts) = max_requests opts \<and>
       (\<not> skipSuccessfulRequests opts \<or> (\<forall>a. 400 \<le> fst (handler a))) \<and>
       now < t0 + windowMs opts \<longrightarrow>
        fst (rateLimit opts now ip handler (run_requests opts ip handler (t0 # ts) (st, app)))
          = Inl (ApiError (handler_message opts) 429))"
proof -
  have c2: "st ip = Some (hits, resetTime) \<and> max_requests opts \<le> hits \<and> now < resetTime \<longrightarrow>
        rateLimit opts now ip handler (st, app)
          = (Inl (ApiError (handler_message opts) 429), st(ip \<mapsto> (hits + 1, resetTime)), app)"
    using rateLimit_rejects [of st ip hits resetTime opts now handler app] by blast
  have c3: "S b ip = Some (hits, resetTime) \<and> max_requests (options_of b) \<le> hits \<and>
       now < resetTime \<longrightarrow>
        limited b now ip handler (S, app)
          = (Inl (ApiError (handler_message (options_of b)) 429),
             S(b := (S b)(ip \<mapsto> (hits + 1, resetTime))), app)"
    using limited_rejects [of S b ip hits resetTime now handler app] by blast
  have c4: "S b ip = Some (hits, resetTime) \<and> hits < max_requests (options_of b) \<and>
       now < resetTime \<and> handler app = (status, app') \<longrightarrow>
        limited b now ip handler (S, app)
          = (Inr status,
             if skipSuccessfulRequests (options_of b) \<and> status < 400 then S
             else S(b := (S b)(ip \<mapsto> (hits + 1, resetTime))),
             app')"
    using limited_passes [of S b ip hits resetTime now handler app status app'] by blast
  have c5: "(S b ip = None \<or> (\<exists>h r. S b ip = Some (h, r) \<and> r \<le> now)) \<and>
       handler app = (status, app') \<longrightarrow>
        fst (limited b now ip handler (S, app)) = Inr status"
    using limited_new_window [of S b ip now handler app status app'] by blast
  have c6: "b' \<noteq> b \<longrightarrow> fst (snd (limited b now ip handler (S, app))) b' = S b'"
    using limited_other_bucket [of b' b now ip handler S app] by blast
  have c7: "ip' \<noteq> ip \<longrightarrow> fst (snd (limited b now ip handler (S, app))) b ip' = S b ip'"
    using limited_other_ip [of ip' ip b now handler S app] by blast
  have c8: "st ip = None \<and> (\<forall>t \<in> set ts. t < t0 + windowMs opts) \<and>
       Suc (length ts) = max_requests opts \<and>
       (\<not> skipSuccessfulRequests opts \<or> (\<forall>a. 400 \<le> fst (handler a))) \<and>
       now < t0 + windowMs opts \<longrightarrow>
        fst (rateLimit opts now ip handler (run_requests opts ip handler (t0 # ts) (st, app)))
          = Inl (ApiError (handler_message opts) 429)" (is "?P \<longrightarrow> ?Q")
  proof
    assume p: ?P
    show ?Q
      by (rule run_requests_exhausts [of st ip ts t0 opts handler now app])
         (use p in blast)+
  qed
  show ?thesis
    by (rule conjI [OF limiter_options_values conjI [OF c2 conjI [OF c3 conjI [OF c4
          conjI [OF c5 conjI [OF c6 conjI [OF c7 c8]]]]]]])
qed

theorem rate_limit_buckets_witness:
  "limited Auth 1700000100000 ''10.0.0.1'' sample_handler (sample_hits, 0)
     = (Inl (ApiError ''Too many authentication attempts, please try again later.'' 429),
        sample_hits(Auth := [''10.0.0.1'' \<mapsto> (6, 1700000900000)]), 0)
   \<and> fst (limited PasswordReset 1700000100000 ''10.0.0.1'' sample_handler (sample_hits, 0))
     = Inr 401
   \<and> fst (snd (limited Auth 1700000100000 ''10.0.0.1'' sample_handler (sample_hits, 0)))
        PasswordReset = Map.empty
   \<and> fst (limited Auth 1700000900000 ''10.0.0.1'' sample_handler (sample_hits, 0)) = Inr 401
   \<and> fst (rateLimit passwordResetLimiter 3599999 ''10.0.0.1'' sample_handler
          (run_requests passwordResetLimiter ''10.0.0.1'' sample_handler [0, 1, 2]
             (Map.empty, 0)))
     = Inl (ApiError ''Too many password reset attempts, please try again later.'' 429)"
proof -
  have e: "(Map.empty :: hit_store) ''10.0.0.1'' = None
           \<and> (\<forall>t \<in> set [1, 2 :: int]. t < 0 + windowMs passwordResetLimiter)
           \<and> Suc (length [1, 2 :: int]) = max_requests passwordResetLimiter
           \<and> (\<not> skipSuccessfulRequests passwordResetLimiter
                \<or> (\<forall>a. 400 \<le> fst (sample_handler a)))
           \<and> (3599999 :: int) < 0 + windowMs passwordResetLimiter"
    by (simp add: passwordResetLimiter_def)
  have pm: "handler_message passwordResetLimiter
              = ''Too many password reset attempts, please try again later.''"
    by (simp add: passwordResetLimiter_def)
  note t4 = rate_limit_buckets [where st = "Map.empty" and ip = "''10.0.0.1''"
      and ts = "[1, 2]" and ?t0.0 = 0 and opts = passwordResetLimiter
      and handler = sample_handler and now = 3599999 and app = "0::nat"]
  from t4 e have 5: "fst (rateLimit passwordResetLimiter 3599999 ''10.0.0.1'' sample_handler
          (run_requests passwordResetLimiter ''10.0.0.1'' sample_handler [0, 1, 2]
             (Map.empty, 0)))
     = Inl (ApiError (handler_message passwordResetLimiter) 429)"
    by blast
  have a: "sample_hits Auth ''10.0.0.1'' = Some (5, 1700000900000)
           \<and> max_requests (options_of Auth) \<le> 5 \<and> (1700000100000 :: int) < 1700000900000"
    by (simp add: sample_hits_def authLimiter_def)
  have m: "handler_message (options_of Auth)
             = ''Too many authentication attempts, please try again later.''"
    by (simp add: authLimiter_def)
  have u: "sample_hits(Auth := (sample_hits Auth)(''10.0.0.1'' \<mapsto> (5 + 1, 1700000900000)))
             = sample_hits(Auth := [''10.0.0.1'' \<mapsto> (6, 1700000900000)])"
    by (simp add: sample_hits_def)
  have b: "sample_hits PasswordReset ''10.0.0.1'' = None \<and> sample_handler 0 = (401, Suc 0)"
    by (simp add: sample_hits_def sample_handler_def)
  have c: "sample_hits PasswordReset = Map.empty"
    by (simp add: sample_hits_def)
  have d: "(\<exists>h r. sample_hits Auth ''10.0.0.1'' = Some (h, r) \<and> r \<le> 1700000900000)
           \<and> sample_handler 0 = (401, Suc 0)"
    by (simp add: sample_hits_def sample_handler_def)
  note t1 = rate_limit_buckets [where S = sample_hits and b = Auth and ip = "''10.0.0.1''"
      and hits = 5 and resetTime = 1700000900000 and now = 1700000100000
      and handler = sample_handler and app = "0::nat" and b' = PasswordReset]
  note t2 = rate_limit_buckets [where S = sample_hits and b = PasswordReset
      and ip = "''10.0.0.1''" and now = 1700000100000
      and handler = sample_handler and app = "0::nat" and status = 401 and app' = "Suc 0"]
  note t3 = rate_limit_buckets [where S = sample_hits and b = Auth
      and ip = "''10.0.0.1''" and now = 1700000900000
      and handler = sample_handler and app = "0::nat" and status = 401 and app' = "Suc 0"]
  from t1 a have 1: "limited Auth 1700000100000 ''10.0.0.1'' sample_handler (sample_hits, 0)
     = (Inl (ApiError (handler_message (options_of Auth)) 429),
        sample_hits(Auth := (sample_hits Auth)(''10.0.0.1'' \<mapsto> (5 + 1, 1700000900000))), 0)"
    by blast
  from t2 b have 2:
    "fst (limited PasswordReset 1700000100000 ''10.0.0.1'' sample_handler (sample_hits, 0)) = Inr 401"
    by blast
  from t1 have 3:
    "fst (snd (limited Auth 1700000100000 ''10.0.0.1'' sample_handler (sample_hits, 0)))
        PasswordReset = sample_hits PasswordReset"
    by blast
  from t3 d have 4:
    "fst (limited Auth 1700000900000 ''10.0.0.1'' sample_handler (sample_hits, 0)) = Inr 401"
    by blast
  from 1 2 3 4 5 show ?thesis
    unfolding m u c pm by simp
qed

text \<open>
  C10.  Updating a user.  A body that passes the update schema comes out with no key but
  \<^verbatim>\<open>name\<close> and \<^verbatim>\<open>age\<close>, each as it was sent (the name trimmed), and it is this object
  that the validation middleware writes back to the request and that the controller hands
  to the service.  With such an object as update, whatever the outcome of \<^verbatim>\<open>updateUser\<close>
  (success, status 404 or status 500), every stored document keeps its id, email,
  password hash, reset token and reset expiry; and so it is for the whole chain of the
  update route on any request.  For an id that is an \<^verbatim>\<open>ObjectId\<close> and an update that the
  store accepts, the service fails with status 404 and leaves the store as it was when no
  stored user has the id; when one has it, the name and the age provided are written to
  that user.  The frame is owed to the validation: the service called with an update
  that has an \<^verbatim>\<open>email\<close> key writes the email.
\<close>

theorem updateUser_frame_rule:
  "(\<forall>vb. updateUserSchema L b = Inr vb \<longrightarrow>
      (\<forall>k. k \<noteq> ''name'' \<and> k \<noteq> ''age'' \<longrightarrow> vb k = None)
      \<and> (vb ''name'' = None \<and> b ''name'' = None \<or>
           (\<exists>s. b ''name'' = Some (JStr s) \<and> vb ''name'' = Some (JStr (trim L s))))
      \<and> (vb ''age'' = None \<and> b ''age'' = None \<or>
           (\<exists>q. b ''age'' = Some (JNum q) \<and> vb ''age'' = Some (JNum q)))
      \<and> map doc_id (snd (updateUser L db i vb)) = map doc_id db
      \<and> map email (snd (updateUser L db i vb)) = map email db
      \<and> map password (snd (updateUser L db i vb)) = map password db
      \<and> map passwordResetToken (snd (updateUser L db i vb)) = map passwordResetToken db
      \<and> map passwordResetExpires (snd (updateUser L db i vb)) = map passwordResetExpires db)
   \<and> (\<forall>req'. validateRequest L req = Inr req' \<longrightarrow>
        updateUserSchema L (body req) = Inr (body req') \<and> req' = req\<lparr>body := body req'\<rparr>)
   \<and> (map doc_id (snd (putUser L E now db req)) = map doc_id db
     \<and> map email (snd (putUser L E now db req)) = map email db
     \<and> map password (snd (putUser L E now db req)) = map password db
     \<and> map passwordResetToken (snd (putUser L E now db req)) = map passwordResetToken db
     \<and> map passwordResetExpires (snd (putUser L E now db req)) = map passwordResetExpires db)
   \<and> (castObjectId i = None \<longrightarrow>
        updateUser L db i u = (Inl (ApiError ''Failed to update user'' 500), db))
   \<and> (castObjectId i = Some oid \<and> cast_update L u = Inr f \<and> (\<forall>d \<in> set db. doc_id d \<noteq> oid) \<longrightarrow>
        updateUser L db i u = (Inl (ApiError ''User not found'' 404), db))
   \<and> (castObjectId i = Some oid \<and> byId db oid = Some d \<and> trim L n \<noteq> [] \<longrightarrow>
        updateUser L db i (parsedBody (Some n) (Some a))
          = (Inr (toJSON (d\<lparr>name := trim L n, age := a\<rparr>)),
             updateOne oid (\<lambda>d. d\<lparr>name := trim L n, age := a\<rparr>) db))
   \<and> (castObjectId i = Some oid \<and> byId db oid = Some d \<and> emailSetter L e \<noteq> [] \<and>
       (\<forall>x \<in> set db. email x \<noteq> emailSetter L e) \<longrightarrow>
        updateUser L db i [''email'' \<mapsto> JStr e]
          = (Inr (toJSON (d\<lparr>email := emailSetter L e\<rparr>)),
             updateOne oid (\<lambda>d. d\<lparr>email := emailSetter L e\<rparr>) db))"
proof -
  have 1: "\<forall>vb. updateUserSchema L b = Inr vb \<longrightarrow>
      (\<forall>k. k \<noteq> ''name'' \<and> k \<noteq> ''age'' \<longrightarrow> vb k = None)
      \<and> (vb ''name'' = None \<and> b ''name'' = None \<or>
           (\<exists>s. b ''name'' = Some (JStr s) \<and> vb ''name'' = Some (JStr (trim L s))))
      \<and> (vb ''age'' = None \<and> b ''age'' = None \<or>
           (\<exists>q. b ''age'' = Some (JNum q) \<and> vb ''age'' = Some (JNum q)))
      \<and> map doc_id (snd (updateUser L db i vb)) = map doc_id db
      \<and> map email (snd (updateUser L db i vb)) = map email db
      \<and> map password (snd (updateUser L db i vb)) = map password db
      \<and> map passwordResetToken (snd (updateUser L db i vb)) = map passwordResetToken db
      \<and> map passwordResetExpires (snd (updateUser L db i vb)) = map passwordResetExpires db"
  proof (intro allI impI)
    fix vb assume v: "updateUserSchema L b = Inr vb"
    have k: "\<forall>k. k \<noteq> ''name'' \<and> k \<noteq> ''age'' \<longrightarrow> vb k = None"
      using updateUserSchema_strips [OF v] by blast
    from updateUserSchema_parsed [OF v] obtain n a where na: "vb = parsedBody n a"
      "n = None \<and> b ''name'' = None \<or> (\<exists>s. b ''name'' = Some (JStr s) \<and> n = Some (trim L s))"
      "a = None \<and> b ''age'' = None \<or> (\<exists>q. b ''age'' = Some (JNum q) \<and> a = Some q)"
      by blast
    have nm: "vb ''name'' = None \<and> b ''name'' = None \<or>
           (\<exists>s. b ''name'' = Some (JStr s) \<and> vb ''name'' = Some (JStr (trim L s)))"
      using na(2) unfolding na(1) by (auto simp: parsedBody_def)
    have ag: "vb ''age'' = None \<and> b ''age'' = None \<or>
           (\<exists>q. b ''age'' = Some (JNum q) \<and> vb ''age'' = Some (JNum q))"
      using na(3) unfolding na(1) by (auto simp: parsedBody_def)
    from k nm ag updateUser_frame [OF k, of L db i]
    show "(\<forall>k. k \<noteq> ''name'' \<and> k \<noteq> ''age'' \<longrightarrow> vb k = None)
      \<and> (vb ''name'' = None \<and> b ''name'' = None \<or>
           (\<exists>s. b ''name'' = Some (JStr s) \<and> vb ''name'' = Some (JStr (trim L s))))
      \<and> (vb ''age'' = None \<and> b ''age'' = None \<or>
           (\<exists>q. b ''age'' = Some (JNum q) \<and> vb ''age'' = Some (JNum q)))
      \<and> map doc_id (snd (updateUser L db i vb)) = map doc_id db
      \<and> map email (snd (updateUser L db i vb)) = map email db
      \<and> map password (snd (updateUser L db i vb)) = map password db
      \<and> map passwordResetToken (snd (updateUser L db i vb)) = map passwordResetToken db
      \<and> map passwordResetExpires (snd (updateUser L db i vb)) = map passwordResetExpires db"
      by blast
  qed
  have 2: "\<forall>req'. validateRequest L req = Inr req' \<longrightarrow>
        updateUserSchema L (body req) = Inr (body req') \<and> req' = req\<lparr>body := body req'\<rparr>"
    using validateRequest_body [of L req] by blast
  note 3 = putUser_frame [of L E now db req]
  have 4: "castObjectId i = None \<longrightarrow>
        updateUser L db i u = (Inl (ApiError ''Failed to update user'' 500), db)"
    using updateUser_cast [of i L db u] by blast
  have 5: "castObjectId i = Some oid \<and> cast_update L u = Inr f \<and> (\<forall>d \<in> set db. doc_id d \<noteq> oid) \<longrightarrow>
        updateUser L db i u = (Inl (ApiError ''User not found'' 404), db)"
    using updateUser_missing [of i oid L u f db] by blast
  have 6: "castObjectId i = Some oid \<and> byId db oid = Some d \<and> trim L n \<noteq> [] \<longrightarrow>
        updateUser L db i (parsedBody (Some n) (Some a))
          = (Inr (toJSON (d\<lparr>name := trim L n, age := a\<rparr>)),
             updateOne oid (\<lambda>d. d\<lparr>name := trim L n, age := a\<rparr>) db)"
  proof
    assume h: "castObjectId i = Some oid \<and> byId db oid = Some d \<and> trim L n \<noteq> []"
    then have c: "cast_update L (parsedBody (Some n) (Some a))
                    = Inr (\<lambda>d. d\<lparr>name := trim L n, age := a\<rparr>)"
      using cast_update_parsedBody [of L n a] by blast
    from h show "updateUser L db i (parsedBody (Some n) (Some a))
          = (Inr (toJSON (d\<lparr>name := trim L n, age := a\<rparr>)),
             updateOne oid (\<lambda>d. d\<lparr>name := trim L n, age := a\<rparr>) db)"
      using updateUser_found [of i oid L "parsedBody (Some n) (Some a)"
          "\<lambda>d. d\<lparr>name := trim L n, age := a\<rparr>" db d, OF _ c]
      by simp
  qed
  have 7: "castObjectId i = Some oid \<and> byId db oid = Some d \<and> emailSetter L e \<noteq> [] \<and>
       (\<forall>x \<in> set db. email x \<noteq> emailSetter L e) \<longrightarrow>
        updateUser L db i [''email'' \<mapsto> JStr e]
          = (Inr (toJSON (d\<lparr>email := emailSetter L e\<rparr>)),
             updateOne oid (\<lambda>d. d\<lparr>email := emailSetter L e\<rparr>) db)"
  proof
    assume h: "castObjectId i = Some oid \<and> byId db oid = Some d \<and> emailSetter L e \<noteq> [] \<and>
       (\<forall>x \<in> set db. email x \<noteq> emailSetter L e)"
    then have c: "cast_update L [''email'' \<mapsto> JStr e] = Inr (\<lambda>d. d\<lparr>email := emailSetter L e\<rparr>)"
      using cast_update_email [of L e] by blast
    from h have "\<not> list_ex (\<lambda>x. email x = emailSetter L e) db"
      by (simp add: list_ex_iff)
    with h c show "updateUser L db i [''email'' \<mapsto> JStr e]
          = (Inr (toJSON (d\<lparr>email := emailSetter L e\<rparr>)),
             updateOne oid (\<lambda>d. d\<lparr>email := emailSetter L e\<rparr>) db)"
      by (simp add: updateUser_def)
  qed
  show ?thesis
    by (rule conjI [OF 1 conjI [OF 2 conjI [OF 3 conjI [OF 4 conjI [OF 5 conjI [OF 6 7]]]]]])
qed

theorem updateUser_frame_rule_witness:
  "putUser sample_lib sample_env 1700000000000 sample_db jane_put
     = (Inr [(''name'', JStr ''Jane Doe''), (''email'', JStr ''jane@example.com''),
             (''age'', JNum 30), (''id'', JStr ''64b0c0ffee0000000000000a'')],
        [jane\<lparr>name := ''Jane Doe''\<rparr>])
   \<and> map email (snd (putUser sample_lib sample_env 1700000000000 sample_db jane_put))
       = [''jane@example.com'']
   \<and> map password (snd (putUser sample_lib sample_env 1700000000000 sample_db jane_put))
       = [''$2b$12$secret1'']
   \<and> (\<exists>vb. updateUserSchema sample_lib (body jane_put) = Inr vb
          \<and> vb ''email'' = None \<and> vb ''password'' = None
          \<and> map email (snd (updateUser sample_lib sample_db ''64b0c0ffee0000000000000a'' vb))
              = [''jane@example.com''])
   \<and> updateUser sample_lib sample_db ''not-an-id'' (body jane_put)
       = (Inl (ApiError ''Failed to update user'' 500), sample_db)
   \<and> updateUser sample_lib sample_db ''64b0c0ffee0000000000000b''
        (parsedBody (Some ''Jane Doe'') (Some 31))
       = (Inl (ApiError ''User not found'' 404), sample_db)
   \<and> updateUser sample_lib sample_db ''64b0c0ffee0000000000000a''
        (parsedBody (Some ''Jane Doe'') (Some 31))
       = (Inr [(''name'', JStr ''Jane Doe''), (''email'', JStr ''jane@example.com''),
               (''age'', JNum 31), (''id'', JStr ''64b0c0ffee0000000000000a'')],
          [jane\<lparr>name := ''Jane Doe'', age := 31\<rparr>])
   \<and> snd (updateUser sample_lib sample_db ''64b0c0ffee0000000000000a''
            [''email'' \<mapsto> JStr ''Mallory@Example.com''])
       = [jane\<lparr>email := ''mallory@example.com''\<rparr>]"
proof -
  have ev: "putUser sample_lib sample_env 1700000000000 sample_db jane_put
     = (Inr [(''name'', JStr ''Jane Doe''), (''email'', JStr ''jane@example.com''),
             (''age'', JNum 30), (''id'', JStr ''64b0c0ffee0000000000000a'')],
        [jane\<lparr>name := ''Jane Doe''\<rparr>])"
    by code_simp
  have sc: "\<exists>vb. updateUserSchema sample_lib (body jane_put) = Inr vb"
  proof -
    have "case updateUserSchema sample_lib (body jane_put) of Inl x \<Rightarrow> False | Inr vb \<Rightarrow> True"
      by code_simp
    then show ?thesis by (cases "updateUserSchema sample_lib (body jane_put)") simp_all
  qed
  have m: "map email sample_db = [''jane@example.com'']"
      "map password sample_db = [''$2b$12$secret1'']"
    by (simp_all add: sample_db_def jane_def)
  have nm: "trim sample_lib ''Jane Doe'' = ''Jane Doe''"
    by (rule sample_emails)
  have ml: "emailSetter sample_lib ''Mallory@Example.com'' = ''mallory@example.com''"
    by code_simp
  have cu: "cast_update sample_lib (parsedBody (Some ''Jane Doe'') (Some 31))
              = Inr (\<lambda>d. d\<lparr>name := trim sample_lib ''Jane Doe'', age := 31\<rparr>)"
    by (rule cast_update_parsedBody) (simp add: nm)
  have a: "\<forall>d \<in> set sample_db. doc_id d \<noteq> ''64b0c0ffee0000000000000b''"
    by (simp add: sample_db_def jane_def)
  have f: "byId sample_db ''64b0c0ffee0000000000000a'' = Some jane"
    by (simp add: byId_def sample_db_def jane_def)
  have tn: "trim sample_lib ''Jane Doe'' \<noteq> []"
    by (simp add: nm)
  have en: "emailSetter sample_lib ''Mallory@Example.com'' \<noteq> [] \<and>
            (\<forall>x \<in> set sample_db. email x \<noteq> emailSetter sample_lib ''Mallory@Example.com'')"
    by (simp add: ml sample_db_def jane_def)
  have js: "toJSON (jane\<lparr>name := ''Jane Doe'', age := 31\<rparr>)
       = [(''name'', JStr ''Jane Doe''), (''email'', JStr ''jane@example.com''),
          (''age'', JNum 31), (''id'', JStr ''64b0c0ffee0000000000000a'')]"
    by (simp add: toJSON_def toObject_def jane_def)
  have u1: "updateOne ''64b0c0ffee0000000000000a'' (\<lambda>d. d\<lparr>name := ''Jane Doe'', age := 31\<rparr>) sample_db
              = [jane\<lparr>name := ''Jane Doe'', age := 31\<rparr>]"
    by (simp add: sample_db_def jane_def)
  have u2: "updateOne ''64b0c0ffee0000000000000a'' (\<lambda>d. d\<lparr>email := ''mallory@example.com''\<rparr>) sample_db
              = [jane\<lparr>email := ''mallory@example.com''\<rparr>]"
    by (simp add: sample_db_def jane_def)
  note t = updateUser_frame_rule [where db = sample_db and L = sample_lib and E = sample_env
      and now = 1700000000000 and req = jane_put and b = "body jane_put"
      and i = "''64b0c0ffee0000000000000a''" and oid = "''64b0c0ffee0000000000000a''"
      and d = jane and n = "''Jane Doe''" and a = 31 and e = "''Mallory@Example.com''"]
  note t404 = updateUser_frame_rule [where db = sample_db and L = sample_lib
      and i = "''64b0c0ffee0000000000000b''" and oid = "''64b0c0ffee0000000000000b''"
      and u = "parsedBody (Some ''Jane Doe'') (Some 31)"
      and f = "\<lambda>d. d\<lparr>name := trim sample_lib ''Jane Doe'', age := 31\<rparr>"]
  note t500 = updateUser_frame_rule [where db = sample_db and L = sample_lib
      and i = "''not-an-id''" and u = "body jane_put"]
  from t have 1: "map email (snd (putUser sample_lib sample_env 1700000000000 sample_db jane_put))
       = map email sample_db"
    and 2: "map password (snd (putUser sample_lib sample_env 1700000000000 sample_db jane_put))
       = map password sample_db"
    by blast+
  from sc obtain vb where vb: "updateUserSchema sample_lib (body jane_put) = Inr vb" by blast
  from t vb have "(\<forall>k. k \<noteq> ''name'' \<and> k \<noteq> ''age'' \<longrightarrow> vb k = None)
      \<and> map email (snd (updateUser sample_lib sample_db ''64b0c0ffee0000000000000a'' vb))
          = map email sample_db"
    by blast
  then have "vb ''email'' = None \<and> vb ''password'' = None
      \<and> map email (snd (updateUser sample_lib sample_db ''64b0c0ffee0000000000000a'' vb))
          = map email sample_db"
    by simp
  with vb have 3: "\<exists>vb. updateUserSchema sample_lib (body jane_put) = Inr vb
          \<and> vb ''email'' = None \<and> vb ''password'' = None
          \<and> map email (snd (updateUser sample_lib sample_db ''64b0c0ffee0000000000000a'' vb))
              = map email sample_db"
    by blast
  from t500 sample_ids(5) have 4: "updateUser sample_lib sample_db ''not-an-id'' (body jane_put)
       = (Inl (ApiError ''Failed to update user'' 500), sample_db)"
    by blast
  from t404 sample_ids(2) cu a have 5: "updateUser sample_lib sample_db ''64b0c0ffee0000000000000b''
        (parsedBody (Some ''Jane Doe'') (Some 31))
       = (Inl (ApiError ''User not found'' 404), sample_db)"
    by blast
  from t sample_ids(1) f tn have 6: "updateUser sample_lib sample_db ''64b0c0ffee0000000000000a''
        (parsedBody (Some ''Jane Doe'') (Some 31))
       = (Inr (toJSON (jane\<lparr>name := trim sample_lib ''Jane Doe'', age := 31\<rparr>)),
          updateOne ''64b0c0ffee0000000000000a''
            (\<lambda>d. d\<lparr>name := trim sample_lib ''Jane Doe'', age := 31\<rparr>) sample_db)"
    by blast
  from t sample_ids(1) f en have 7: "updateUser sample_lib sample_db ''64b0c0ffee0000000000000a''
        [''email'' \<mapsto> JStr ''Mallory@Example.com'']
       = (Inr (toJSON (jane\<lparr>email := emailSetter sample_lib ''Mallory@Example.com''\<rparr>)),
          updateOne ''64b0c0ffee0000000000000a''
            (\<lambda>d. d\<lparr>email := emailSetter sample_lib ''Mallory@Example.com''\<rparr>) sample_db)"
    by blast
  from 6 have 8: "updateUser sample_lib sample_db ''64b0c0ffee0000000000000a''
        (parsedBody (Some ''Jane Doe'') (Some 31))
       = (Inr [(''name'', JStr ''Jane Doe''), (''email'', JStr ''jane@example.com''),
               (''age'', JNum 31), (''id'', JStr ''64b0c0ffee0000000000000a'')],
          [jane\<lparr>name := ''Jane Doe'', age := 31\<rparr>])"
    unfolding nm js u1 .
  from 7 have 9: "snd (updateUser sample_lib sample_db ''64b0c0ffee0000000000000a''
            [''email'' \<mapsto> JStr ''Mallory@Example.com''])
       = [jane\<lparr>email := ''mallory@example.com''\<rparr>]"
    unfolding ml u2 by simp
  from ev 1 2 3 4 5 8 9 m show ?thesis by simp
qed

end
